theory Spec2Isabelle
  imports Complex_Main "HOL-Library.Word"
begin

unbundle bit_operations_syntax

section \<open>JavaScript numbers\<close>

text \<open>
  A JavaScript Number is an IEEE-754 double: NaN, one of the two infinities, or a finite
  value. The finite values are embedded as reals, and arithmetic on them is carried out
  exactly (no rounding and no overflow to infinity); the two zeros are one value
  \<open>Fin 0\<close>, as \<open>===\<close> sees them. The tests the code makes on numbers (\<open>isNaN\<close>,
  \<open>=== 0.0\<close>, \<open><\<close>, \<open>></\<close>) are modelled exactly. A read of a missing array
  element gives \<open>undefined\<close>, which every numeric operation of this file turns into NaN
  and \<open>isNaN\<close> reports as NaN, so it is read as \<open>NaN\<close>.
\<close>

datatype jsnum = NaN | NInf | PInf | Fin real

fun isNaN :: "jsnum \<Rightarrow> bool" where
  "isNaN NaN = True"
| "isNaN _ = False"

fun isFinite :: "jsnum \<Rightarrow> bool" where
  "isFinite (Fin _) = True"
| "isFinite _ = False"

text \<open>Strict equality \<open>===\<close> on numbers: NaN is equal to nothing, not even to itself.\<close>

fun js_eq :: "jsnum \<Rightarrow> jsnum \<Rightarrow> bool" where
  "js_eq NaN _ = False"
| "js_eq _ NaN = False"
| "js_eq x y = (x = y)"

fun js_lt :: "jsnum \<Rightarrow> jsnum \<Rightarrow> bool" where
  "js_lt NaN _ = False"
| "js_lt _ NaN = False"
| "js_lt PInf _ = False"
| "js_lt _ NInf = False"
| "js_lt NInf _ = True"
| "js_lt _ PInf = True"
| "js_lt (Fin x) (Fin y) = (x < y)"

definition js_gt :: "jsnum \<Rightarrow> jsnum \<Rightarrow> bool" where
  "js_gt x y = js_lt y x"

definition js_le :: "jsnum \<Rightarrow> jsnum \<Rightarrow> bool" where
  "js_le x y = (js_lt x y \<or> js_eq x y)"

definition js_ge :: "jsnum \<Rightarrow> jsnum \<Rightarrow> bool" where
  "js_ge x y = js_le y x"

fun js_neg :: "jsnum \<Rightarrow> jsnum" where
  "js_neg NaN = NaN"
| "js_neg NInf = PInf"
| "js_neg PInf = NInf"
| "js_neg (Fin x) = Fin (- x)"

fun js_abs :: "jsnum \<Rightarrow> jsnum" where
  "js_abs NaN = NaN"
| "js_abs NInf = PInf"
| "js_abs PInf = PInf"
| "js_abs (Fin x) = Fin \<bar>x\<bar>"

fun js_add :: "jsnum \<Rightarrow> jsnum \<Rightarrow> jsnum" where
  "js_add NaN _ = NaN"
| "js_add _ NaN = NaN"
| "js_add PInf NInf = NaN"
| "js_add NInf PInf = NaN"
| "js_add PInf _ = PInf"
| "js_add _ PInf = PInf"
| "js_add NInf _ = NInf"
| "js_add _ NInf = NInf"
| "js_add (Fin x) (Fin y) = Fin (x + y)"

definition js_sub :: "jsnum \<Rightarrow> jsnum \<Rightarrow> jsnum" where
  "js_sub x y = js_add x (js_neg y)"

text \<open>The sign of a non-NaN number: \<open>-1\<close>, \<open>0\<close> or \<open>1\<close>.\<close>

fun js_sign :: "jsnum \<Rightarrow> int" where
  "js_sign NaN = 0"
| "js_sign NInf = - 1"
| "js_sign PInf = 1"
| "js_sign (Fin x) = (if x < 0 then - 1 else if x = 0 then 0 else 1)"

definition inf_of_sign :: "int \<Rightarrow> jsnum" where
  "inf_of_sign s = (if s = 0 then NaN else if s < 0 then NInf else PInf)"

fun js_mul :: "jsnum \<Rightarrow> jsnum \<Rightarrow> jsnum" where
  "js_mul NaN _ = NaN"
| "js_mul _ NaN = NaN"
| "js_mul (Fin x) (Fin y) = Fin (x * y)"
| "js_mul x y = inf_of_sign (js_sign x * js_sign y)"

text \<open>
  Division; a zero divisor is taken as \<open>+0\<close>, so a non-zero finite dividend gives the
  infinity of its own sign and \<open>0 / 0\<close> is NaN.
\<close>

fun js_div :: "jsnum \<Rightarrow> jsnum \<Rightarrow> jsnum" where
  "js_div NaN _ = NaN"
| "js_div _ NaN = NaN"
| "js_div (Fin x) (Fin y) = (if y = 0 then inf_of_sign (js_sign (Fin x)) else Fin (x / y))"
| "js_div (Fin x) _ = Fin 0"
| "js_div x (Fin y) = inf_of_sign (js_sign x * (if y < 0 then - 1 else 1))"
| "js_div _ _ = NaN"

text \<open>\<open>Math.sqrt\<close>: NaN on a negative argument.\<close>

fun js_sqrt :: "jsnum \<Rightarrow> jsnum" where
  "js_sqrt NaN = NaN"
| "js_sqrt NInf = NaN"
| "js_sqrt PInf = PInf"
| "js_sqrt (Fin x) = (if x < 0 then NaN else Fin (sqrt x))"

text \<open>\<open>Math.pow(x, 2)\<close>.\<close>

definition js_pow2 :: "jsnum \<Rightarrow> jsnum" where
  "js_pow2 x = js_mul x x"

text \<open>\<open>Math.min\<close> and \<open>Math.max\<close> of two numbers: NaN if either is NaN.\<close>

definition js_min :: "jsnum \<Rightarrow> jsnum \<Rightarrow> jsnum" where
  "js_min x y = (if isNaN x \<or> isNaN y then NaN else if js_lt y x then y else x)"

definition js_max :: "jsnum \<Rightarrow> jsnum \<Rightarrow> jsnum" where
  "js_max x y = (if isNaN x \<or> isNaN y then NaN else if js_lt x y then y else x)"

text \<open>\<open>Math.round\<close>: the nearest integer, a tie going up.\<close>

fun js_round :: "jsnum \<Rightarrow> jsnum" where
  "js_round (Fin x) = Fin (of_int \<lfloor>x + 1 / 2\<rfloor>)"
| "js_round x = x"

text \<open>
  Arrays of numbers. A read past the end gives \<open>undefined\<close> (read as NaN, see above); a
  write past the end of a plain Array extends it, the hole reading as \<open>undefined\<close>.
\<close>

definition js_get :: "jsnum list \<Rightarrow> nat \<Rightarrow> jsnum" where
  "js_get xs i = (if i < length xs then xs ! i else NaN)"

definition js_set :: "jsnum list \<Rightarrow> nat \<Rightarrow> jsnum \<Rightarrow> jsnum list" where
  "js_set xs i v =
     (if i < length xs then xs[i := v] else xs @ replicate (i - length xs) NaN @ [v])"

section \<open>The header and the resolution of its affine\<close>

text \<open>
  The fields of the NIfTI header that the code of \<open>nvimage.js\<close> reads and writes. The
  affine is an array of four rows of four numbers, \<open>affine[i][j]\<close>.
\<close>

type_synonym mat = "jsnum list list"

record header =
  dims :: "nat list"
  pixDims :: "jsnum list"
  datatypeCode :: nat
  numBitsPerVoxel :: nat
  littleEndian :: bool
  scl_slope :: jsnum
  scl_inter :: jsnum
  cal_min :: jsnum
  cal_max :: jsnum
  qform_code :: int
  sform_code :: int
  quatern_b :: jsnum
  quatern_c :: jsnum
  quatern_d :: jsnum
  qoffset_x :: jsnum
  qoffset_y :: jsnum
  qoffset_z :: jsnum
  affine :: mat

definition mat_row :: "mat \<Rightarrow> nat \<Rightarrow> jsnum list" where
  "mat_row m i = (if i < length m then m ! i else [])"

definition mat_at :: "mat \<Rightarrow> nat \<Rightarrow> nat \<Rightarrow> jsnum" where
  "mat_at m i j = js_get (mat_row m i) j"

definition mat_set :: "mat \<Rightarrow> nat \<Rightarrow> nat \<Rightarrow> jsnum \<Rightarrow> mat" where
  "mat_set m i j v = m[i := js_set (mat_row m i) j v]"

definition is4x4 :: "mat \<Rightarrow> bool" where
  "is4x4 m = (length m = 4 \<and> list_all (\<lambda>r. length r = 4) m)"

subsection \<open>\<open>isAffineOK\<close>\<close>

text \<open>
  The first double loop returns \<open>false\<close> at the first NaN among the sixteen entries. The
  second marks the rows and the columns of the leading 3x3 block that hold an entry
  other than zero, in the arrays \<open>iOK\<close> and \<open>jOK\<close>; the third returns \<open>false\<close> at the
  first unmarked row or column.
\<close>

definition anyNaN :: "mat \<Rightarrow> bool" where
  "anyNaN mtx = list_ex (\<lambda>i. list_ex (\<lambda>j. isNaN (mat_at mtx i j)) [0..<4]) [0..<4]"

definition mark :: "mat \<Rightarrow> bool list \<times> bool list \<Rightarrow> nat \<times> nat \<Rightarrow> bool list \<times> bool list" where
  "mark mtx ok ij =
     (case ij of (i, j) \<Rightarrow>
        if js_eq (mat_at mtx i j) (Fin 0) then ok
        else ((fst ok)[i := True], (snd ok)[j := True]))"

definition marks :: "mat \<Rightarrow> bool list \<times> bool list" where
  "marks mtx =
     foldl (mark mtx) ([False, False, False, False], [False, False, False, False])
       (concat (map (\<lambda>i. map (\<lambda>j. (i, j)) [0..<3]) [0..<3]))"

definition isAffineOK :: "mat \<Rightarrow> bool" where
  "isAffineOK mtx =
     (if anyNaN mtx then False
      else list_all (\<lambda>i. fst (marks mtx) ! i \<and> snd (marks mtx) ! i) [0..<3])"

subsection \<open>The repair of a defective affine\<close>

text \<open>
  Each of \<open>pixDims[1..3]\<close> that is NaN or zero becomes \<open>1.0\<close>, the three are written back
  and the affine becomes the diagonal matrix of them.
\<close>

definition fix_pixdim :: "jsnum \<Rightarrow> jsnum" where
  "fix_pixdim x = (if isNaN x \<or> js_eq x (Fin 0) then Fin 1 else x)"

definition diag_affine :: "jsnum \<Rightarrow> jsnum \<Rightarrow> jsnum \<Rightarrow> mat" where
  "diag_affine x y z =
     [[x, Fin 0, Fin 0, Fin 0],
      [Fin 0, y, Fin 0, Fin 0],
      [Fin 0, Fin 0, z, Fin 0],
      [Fin 0, Fin 0, Fin 0, Fin 1]]"

definition repair :: "header \<Rightarrow> header" where
  "repair h =
     (let x = fix_pixdim (js_get (pixDims h) 1);
          y = fix_pixdim (js_get (pixDims h) 2);
          z = fix_pixdim (js_get (pixDims h) 3)
      in h\<lparr>pixDims := js_set (js_set (js_set (pixDims h) 1 x) 2 y) 3 z,
            affine := diag_affine x y z\<rparr>)"

subsection \<open>The quaternion branch\<close>

text \<open>
  The scalar part of the quaternion is
  \<open>Math.sqrt(1.0 - (Math.pow(b, 2) + Math.pow(c, 2) + Math.pow(d, 2)))\<close>; the rotation
  matrix \<open>quatern_R\<close> is built from \<open>a\<close>, \<open>b\<close>, \<open>c\<close>, \<open>d\<close> with the operators in the
  order JavaScript gives them.
\<close>

definition quatern_a :: "jsnum \<Rightarrow> jsnum \<Rightarrow> jsnum \<Rightarrow> jsnum" where
  "quatern_a b c d =
     js_sqrt (js_sub (Fin 1) (js_add (js_add (js_pow2 b) (js_pow2 c)) (js_pow2 d)))"

definition quatern_R :: "jsnum \<Rightarrow> jsnum \<Rightarrow> jsnum \<Rightarrow> jsnum \<Rightarrow> mat" where
  "quatern_R a b c d =
     [[js_sub (js_sub (js_add (js_mul a a) (js_mul b b)) (js_mul c c)) (js_mul d d),
       js_sub (js_mul (js_mul (Fin 2) b) c) (js_mul (js_mul (Fin 2) a) d),
       js_add (js_mul (js_mul (Fin 2) b) d) (js_mul (js_mul (Fin 2) a) c)],
      [js_add (js_mul (js_mul (Fin 2) b) c) (js_mul (js_mul (Fin 2) a) d),
       js_sub (js_sub (js_add (js_mul a a) (js_mul c c)) (js_mul b b)) (js_mul d d),
       js_sub (js_mul (js_mul (Fin 2) c) d) (js_mul (js_mul (Fin 2) a) b)],
      [js_sub (js_mul (js_mul (Fin 2) b) d) (js_mul (js_mul (Fin 2) a) c),
       js_add (js_mul (js_mul (Fin 2) c) d) (js_mul (js_mul (Fin 2) a) b),
       js_sub (js_sub (js_add (js_mul a a) (js_mul d d)) (js_mul c c)) (js_mul b b)]]"

text \<open>
  One pass of the inner loop body: \<open>affine[ctrOut][ctrIn]\<close> becomes
  \<open>quatern_R[ctrOut][ctrIn] * pixDims[ctrIn + 1]\<close>, times \<open>qfac\<close> in the third column.
\<close>

definition qform_cell :: "mat \<Rightarrow> jsnum list \<Rightarrow> jsnum \<Rightarrow> mat \<Rightarrow> nat \<times> nat \<Rightarrow> mat" where
  "qform_cell R pd qfac m oi =
     (case oi of (ctrOut, ctrIn) \<Rightarrow>
        let v = js_mul (mat_at R ctrOut ctrIn) (js_get pd (ctrIn + 1))
        in mat_set m ctrOut ctrIn (if ctrIn = 2 then js_mul v qfac else v))"

definition qform_affine ::
  "mat \<Rightarrow> jsnum list \<Rightarrow> jsnum \<Rightarrow> jsnum \<Rightarrow> jsnum \<Rightarrow> jsnum \<Rightarrow> mat \<Rightarrow> mat" where
  "qform_affine R pd qfac qx qy qz m =
     (let m1 = foldl (qform_cell R pd qfac) m
                 (concat (map (\<lambda>i. map (\<lambda>j. (i, j)) [0..<3]) [0..<3]));
          m2 = mat_set m1 0 3 qx;
          m3 = mat_set m2 1 3 qy
      in mat_set m3 2 3 qz)"

definition qform :: "header \<Rightarrow> header" where
  "qform h =
     (let b = quatern_b h; c = quatern_c h; d = quatern_d h;
          a = quatern_a b c d;
          qfac = (if js_eq (js_get (pixDims h) 0) (Fin 0) then Fin 1 else js_get (pixDims h) 0);
          R = quatern_R a b c d
      in h\<lparr>affine := qform_affine R (pixDims h) qfac
                         (qoffset_x h) (qoffset_y h) (qoffset_z h) (affine h)\<rparr>)"

subsection \<open>The constructor's resolution of the affine\<close>

text \<open>
  The part of the constructor between the reading of the header and the byte swap: the
  scaling slope and intercept are defaulted, the quaternion branch is taken when it is
  asked for, when the affine is defective or when \<open>qform_code > sform_code\<close>, and the
  affine that is defective after that is repaired.
\<close>

definition fix_scl :: "header \<Rightarrow> header" where
  "fix_scl h =
     (let h1 = (if isNaN (scl_slope h) \<or> js_eq (scl_slope h) (Fin 0)
                then h\<lparr>scl_slope := Fin 1\<rparr> else h)
      in if isNaN (scl_inter h1) then h1\<lparr>scl_inter := Fin 0\<rparr> else h1)"

definition resolve_affine :: "bool \<Rightarrow> header \<Rightarrow> header" where
  "resolve_affine useQFormNotSForm h0 =
     (let h = fix_scl h0;
          affineOK = isAffineOK (affine h);
          h1 = (if useQFormNotSForm \<or> \<not> affineOK \<or> qform_code h > sform_code h
                then qform h else h)
      in if \<not> isAffineOK (affine h1) then repair h1 else h1)"

section \<open>The byte swap of foreign-endian voxel data\<close>

text \<open>
  What the code throws: a reference to an identifier that is bound nowhere, a call of a
  method on a value that has none, the datatype that the voxel decoder does not support,
  and the NRRD type that the header decoder does not know.
\<close>

datatype error =
    ReferenceError string
  | TypeError
  | UnsupportedDatatype nat
  | UnsupportedNRRDType string

text \<open>
  16 bits: \<open>u16[i] = ((((val & 0xff) << 8) | ((val >> 8) & 0xff)) << 16) >> 16\<close> on every
  element of the \<open>Uint16Array\<close> view. The bit operators of JavaScript work on the 32-bit
  two's complement integer of the operand, \<open>>></\<close> shifting the sign in; the store into
  the \<open>Uint16Array\<close> keeps the low 16 bits.
\<close>

definition swap16 :: "16 word \<Rightarrow> 16 word" where
  "swap16 val16 =
     (let val = (ucast val16 :: 32 word)
      in ucast (signed_drop_bit 16 (push_bit 16
           (push_bit 8 (val AND 0xff) OR (signed_drop_bit 8 val AND 0xff)))))"

definition swap16_buffer :: "16 word list \<Rightarrow> 16 word list" where
  "swap16_buffer u16 = map swap16 u16"

text \<open>
  32 bits: \<open>u32[i] = ((val & 0xff) << 24) | ((val & 0xff00) << 8) | ((val >> 8) & 0xff00) |
  ((val >> 24) & 0xff)\<close> on every element of the \<open>Uint32Array\<close> view.
\<close>

definition swap32 :: "32 word \<Rightarrow> 32 word" where
  "swap32 val =
     (((push_bit 24 (val AND 0xff) OR push_bit 8 (val AND 0xff00))
       OR (signed_drop_bit 8 val AND 0xff00))
      OR (signed_drop_bit 24 val AND 0xff))"

definition swap32_buffer :: "32 word list \<Rightarrow> 32 word list" where
  "swap32_buffer u32 = map swap32 u32"

text \<open>
  64 bits: the loop works on the \<open>Uint8Array\<close> view, eight bytes at a time. A read past
  the end of a typed array gives \<open>undefined\<close>, which is stored as 0; a write past the end
  is ignored.
\<close>

definition u8_get :: "8 word list \<Rightarrow> nat \<Rightarrow> 8 word" where
  "u8_get u8 i = (if i < length u8 then u8 ! i else 0)"

text \<open>
  The inner loop \<open>for (let x = 0; x < offset; x++) { ...; offset--; }\<close>, which exchanges
  \<open>u8[index + x]\<close> and \<open>u8[index + offset]\<close>.
\<close>

function swap64_inner :: "nat \<Rightarrow> nat \<Rightarrow> nat \<Rightarrow> 8 word list \<Rightarrow> 8 word list" where
  "swap64_inner index x offset u8 =
     (if x < offset
      then (let theByte = u8_get u8 (index + x);
                u8' = u8[index + x := u8_get u8 (index + offset)];
                u8'' = u8'[index + offset := theByte]
            in swap64_inner index (x + 1) (offset - 1) u8'')
      else u8)"
  by pat_completeness auto
termination
  by (relation "measure (\<lambda>(index, x, offset, u8). offset - x)") auto

declare swap64_inner.simps [simp del]

text \<open>
  The outer loop \<open>for (let index = 0; index < u8.length; index += numBytesPerVoxel)\<close>
  with \<open>numBytesPerVoxel = 64 / 8\<close>. Its body starts with
  \<open>let offset = bytesPer - 1\<close>; the parameter \<open>bytesPer\<close> is the binding of that
  identifier, \<open>None\<close> when there is none, and then evaluating it throws.
\<close>

function swap64_loop :: "nat option \<Rightarrow> nat \<Rightarrow> 8 word list \<Rightarrow> error + 8 word list" where
  "swap64_loop bytesPer index u8 =
     (if index < length u8
      then (case bytesPer of
              None \<Rightarrow> Inl (ReferenceError ''bytesPer'')
            | Some b \<Rightarrow> swap64_loop bytesPer (index + 8) (swap64_inner index 0 (b - 1) u8))
      else Inr u8)"
  by pat_completeness auto
termination
proof (relation "measure (\<lambda>(bytesPer, index, u8). length u8 - index)")
  show "wf (measure (\<lambda>(bytesPer, index, u8). length u8 - index))"
    by simp
next
  fix bytesPer :: "nat option" and index :: nat and u8 :: "8 word list" and b :: nat
  assume lt: "index < length u8"
  have len: "length (swap64_inner i x off xs) = length xs" for i x off xs
  proof (induction i x off xs rule: swap64_inner.induct)
    case (1 i x off xs)
    show ?case
      using "1.IH" by (subst swap64_inner.simps) (simp add: Let_def)
  qed
  show "((bytesPer, index + 8, swap64_inner index 0 (b - 1) u8), (bytesPer, index, u8))
          \<in> measure (\<lambda>(bytesPer, index, u8). length u8 - index)"
    using lt by (simp add: len)
qed

declare swap64_loop.simps [simp del]

text \<open>
  \<open>bytesPer\<close> is declared nowhere in \<open>nvimage.js\<close>: it is no parameter, no local, no
  import and no global of the platform (the variable that holds the element size is
  \<open>numBytesPerVoxel\<close>).
\<close>

definition bytesPer :: "nat option" where
  "bytesPer = None"

definition swap64_buffer :: "8 word list \<Rightarrow> error + 8 word list" where
  "swap64_buffer u8 = swap64_loop bytesPer 0 u8"


section \<open>The voxel decoder: promoted datatypes\<close>

text \<open>The datatype codes of \<open>nifti1.h\<close> that the constructor declares.\<close>

definition DT_UNSIGNED_CHAR :: nat where "DT_UNSIGNED_CHAR = 2"
definition DT_SIGNED_SHORT :: nat where "DT_SIGNED_SHORT = 4"
definition DT_SIGNED_INT :: nat where "DT_SIGNED_INT = 8"
definition DT_FLOAT :: nat where "DT_FLOAT = 16"
definition DT_DOUBLE :: nat where "DT_DOUBLE = 64"
definition DT_RGB :: nat where "DT_RGB = 128"
definition DT_INT8 :: nat where "DT_INT8 = 256"
definition DT_UINT16 :: nat where "DT_UINT16 = 512"
definition DT_UINT32 :: nat where "DT_UINT32 = 768"
definition DT_INT64 :: nat where "DT_INT64 = 1024"
definition DT_RGBA32 :: nat where "DT_RGBA32 = 2304"

text \<open>
  \<open>Number(x)\<close> of a BigInt \<open>x\<close> is the double nearest to \<open>x\<close>, a tie going to the even
  significand of 53 bits. The result is an integer again; it is \<open>x\<close> itself when \<open>x\<close>
  has at most 53 significant bits.
\<close>

function bitlen :: "nat \<Rightarrow> nat" where
  "bitlen n = (if n = 0 then 0 else Suc (bitlen (n div 2)))"
  by pat_completeness auto
termination
  by (relation "measure id") auto

declare bitlen.simps [simp del]

definition round_ties_even :: "nat \<Rightarrow> nat \<Rightarrow> nat" where
  "round_ties_even e m =
     (let q = m div 2 ^ e; r = m mod 2 ^ e; half = 2 ^ e div 2
      in (if half < r \<or> (r = half \<and> odd q) then q + 1 else q) * 2 ^ e)"

definition number_of_bigint :: "int \<Rightarrow> int" where
  "number_of_bigint x =
     (let m = nat \<bar>x\<bar>
      in if bitlen m \<le> 53 then x else sgn x * int (round_ties_even (bitlen m - 53) m))"

text \<open>
  The four promoted cases of the \<open>switch\<close> on \<open>hdr.datatypeCode\<close>. Each takes the typed
  view of the raw voxel bytes that the case builds (\<open>Int8Array\<close>, \<open>Uint32Array\<close>,
  \<open>Int32Array\<close>, \<open>BigInt64Array\<close>) as the list of its elements, allocates the output
  array of the same length, filled with zeros, copies with
  \<open>for (let i = 0; i < vx - 1; i++) this.img[i] = src[i]\<close> and rewrites the datatype
  code. An \<open>Int16Array\<close> is the list of its 16-bit elements, a \<open>Float64Array\<close> the list
  of its numbers.
\<close>

definition promote_loop :: "('a \<Rightarrow> 'b) \<Rightarrow> 'b \<Rightarrow> 'a list \<Rightarrow> 'b list" where
  "promote_loop conv zero src =
     (let vx = length src
      in foldl (\<lambda>img i. img[i := conv (src ! i)]) (replicate vx zero) [0..<vx - 1])"

definition case_DT_INT8 :: "header \<Rightarrow> 8 word list \<Rightarrow> header \<times> 16 word list" where
  "case_DT_INT8 h i8 =
     (h\<lparr>datatypeCode := DT_SIGNED_SHORT\<rparr>,
      promote_loop (\<lambda>v. word_of_int (sint v)) 0 i8)"

definition case_DT_UINT32 :: "header \<Rightarrow> 32 word list \<Rightarrow> header \<times> jsnum list" where
  "case_DT_UINT32 h u32 =
     (h\<lparr>datatypeCode := DT_DOUBLE\<rparr>,
      promote_loop (\<lambda>v. Fin (of_int (uint v))) (Fin 0) u32)"

definition case_DT_SIGNED_INT :: "header \<Rightarrow> 32 word list \<Rightarrow> header \<times> jsnum list" where
  "case_DT_SIGNED_INT h i32 =
     (h\<lparr>datatypeCode := DT_DOUBLE\<rparr>,
      promote_loop (\<lambda>v. Fin (of_int (sint v))) (Fin 0) i32)"

definition case_DT_INT64 :: "header \<Rightarrow> 64 word list \<Rightarrow> header \<times> jsnum list" where
  "case_DT_INT64 h i64 =
     (h\<lparr>datatypeCode := DT_DOUBLE\<rparr>,
      promote_loop (\<lambda>v. Fin (of_int (number_of_bigint (sint v)))) (Fin 0) i64)"


section \<open>The permutation and the flips of \<open>calculateRAS\<close>\<close>

text \<open>
  \<open>calculateRAS\<close> copies the affine into matrices of gl-matrix, whose element type is
  the library's \<open>ARRAY_TYPE\<close> (\<open>Float32Array\<close> unless configured otherwise). The rounding
  of a number on its way into such a matrix is the parameter \<open>fround\<close>. \<open>absR\<close> holds the
  magnitudes of the leading 3x3 block, \<open>absR[3 * i + j] = |a[i][j]|\<close>.
\<close>

definition absR :: "(jsnum \<Rightarrow> jsnum) \<Rightarrow> mat \<Rightarrow> jsnum list" where
  "absR fround a =
     map fround
       [js_abs (mat_at a 0 0), js_abs (mat_at a 0 1), js_abs (mat_at a 0 2),
        js_abs (mat_at a 1 0), js_abs (mat_at a 1 1), js_abs (mat_at a 1 2),
        js_abs (mat_at a 2 0), js_abs (mat_at a 2 1), js_abs (mat_at a 2 2)]"

definition ras_ixyz :: "(jsnum \<Rightarrow> jsnum) \<Rightarrow> mat \<Rightarrow> nat list" where
  "ras_ixyz fround a =
     (let absR = absR fround a;
          ixyz = [1, 1, 1];
          ixyz = (if js_gt (absR ! 3) (absR ! 0) then ixyz[0 := 2] else ixyz);
          ixyz = (if js_gt (absR ! 6) (absR ! 0) \<and> js_gt (absR ! 6) (absR ! 3)
                  then ixyz[0 := 3] else ixyz);
          ixyz = ixyz[1 := 1];
          ixyz = (if ixyz ! 0 = 1
                  then (if js_gt (absR ! 4) (absR ! 7) then ixyz[1 := 2] else ixyz[1 := 3])
                  else if ixyz ! 0 = 2
                  then (if js_gt (absR ! 1) (absR ! 7) then ixyz[1 := 1] else ixyz[1 := 3])
                  else (if js_gt (absR ! 1) (absR ! 4) then ixyz[1 := 1] else ixyz[1 := 2]))
      in ixyz[2 := 6 - ixyz ! 1 - ixyz ! 0])"

definition ras_perm :: "nat list \<Rightarrow> nat list" where
  "ras_perm ixyz =
     (let perm = [1, 2, 3];
          perm = perm[ixyz ! 0 - 1 := 1];
          perm = perm[ixyz ! 1 - 1 := 2]
      in perm[ixyz ! 2 - 1 := 3])"

text \<open>
  \<open>rotM\<close> is the affine with the last row \<open>0 0 0 1\<close>, sixteen numbers row by row; \<open>R\<close> is
  \<open>rotM\<close> with the columns of the 3x3 block permuted,
  \<open>R[i * 4 + j] = rotM[i * 4 + perm[j] - 1]\<close>; a flip is set where the diagonal entry of
  \<open>R\<close> is negative.
\<close>

definition ras_rotM :: "(jsnum \<Rightarrow> jsnum) \<Rightarrow> mat \<Rightarrow> jsnum list" where
  "ras_rotM fround a =
     map fround
       [mat_at a 0 0, mat_at a 0 1, mat_at a 0 2, mat_at a 0 3,
        mat_at a 1 0, mat_at a 1 1, mat_at a 1 2, mat_at a 1 3,
        mat_at a 2 0, mat_at a 2 1, mat_at a 2 2, mat_at a 2 3,
        Fin 0, Fin 0, Fin 0, Fin 1]"

definition ras_R :: "jsnum list \<Rightarrow> nat list \<Rightarrow> jsnum list" where
  "ras_R rotM perm =
     foldl (\<lambda>R ij. case ij of (i, j) \<Rightarrow> R[i * 4 + j := rotM ! (i * 4 + perm ! j - 1)]) rotM
       (concat (map (\<lambda>i. map (\<lambda>j. (i, j)) [0..<3]) [0..<3]))"

definition ras_flip :: "jsnum list \<Rightarrow> nat list" where
  "ras_flip R =
     (let flip = [0, 0, 0];
          flip = (if js_lt (R ! 0) (Fin 0) then flip[0 := 1] else flip);
          flip = (if js_lt (R ! 5) (Fin 0) then flip[1 := 1] else flip)
      in if js_lt (R ! 10) (Fin 0) then flip[2 := 1] else flip)"

text \<open>The permutation and the flip vector that \<open>calculateRAS\<close> works with.\<close>

definition calculateRAS_perm :: "(jsnum \<Rightarrow> jsnum) \<Rightarrow> mat \<Rightarrow> nat list" where
  "calculateRAS_perm fround a = ras_perm (ras_ixyz fround a)"

definition calculateRAS_flip :: "(jsnum \<Rightarrow> jsnum) \<Rightarrow> mat \<Rightarrow> nat list" where
  "calculateRAS_flip fround a = ras_flip (ras_R (ras_rotM fround a) (calculateRAS_perm fround a))"


section \<open>The intensity range: \<open>calMinMax\<close> and \<open>setColorMap\<close>\<close>

text \<open>
  The image, with the fields that \<open>calMinMax\<close> and \<open>setColorMap\<close> read and write. The
  voxel buffer \<open>img\<close> is the list of the numbers that the typed array holds.
\<close>

record nvimage =
  hdr :: header
  img :: "jsnum list"
  colorMap :: string
  trustCalMinMax :: bool
  percentileFrac :: jsnum
  ignoreZeroVoxels :: bool
  cal_min :: jsnum
  cal_max :: jsnum
  robust_min :: jsnum
  robust_max :: jsnum
  global_min :: jsnum
  global_max :: jsnum

text \<open>
  The colormap registry is the module \<open>./cmaps\<close>, which is not part of the sources at
  hand: it is a parameter, a map from the name of a colormap to its \<open>min\<close> and \<open>max\<close>.
  \<open>colorMaps()\<close> lists its keys, so \<open>allColorMaps.indexOf(name) !== -1\<close> says that
  \<open>name\<close> is a key.
\<close>

type_synonym cmaps = "string \<rightharpoonup> jsnum \<times> jsnum"

text \<open>\<open>String.prototype.toLowerCase\<close>, on strings of ASCII characters.\<close>

definition lower_char :: "char \<Rightarrow> char" where
  "lower_char c =
     (let n = (of_char c :: nat) in if 65 \<le> n \<and> n \<le> 90 then char_of (n + 32) else c)"

definition toLowerCase :: "string \<Rightarrow> string" where
  "toLowerCase s = map lower_char s"

text \<open>
  \<open>intensityRaw2Scaled\<close> stores 1 into a slope that is 0 and scales the raw value; it
  returns the header as it leaves it and the scaled value.
\<close>

definition intensityRaw2Scaled :: "header \<Rightarrow> jsnum \<Rightarrow> header \<times> jsnum" where
  "intensityRaw2Scaled h raw =
     (let h' = (if js_eq (scl_slope h) (Fin 0) then h\<lparr>scl_slope := Fin 1\<rparr> else h)
      in (h', js_add (js_mul raw (scl_slope h')) (scl_inter h')))"

text \<open>
  The first pass over the voxels: the state is \<open>(mn, mx, nZero, nNan)\<close>. A NaN is
  counted and skipped; a zero is counted, and skipped when zeros are ignored.
\<close>

definition scan_step ::
  "bool \<Rightarrow> jsnum \<times> jsnum \<times> nat \<times> nat \<Rightarrow> jsnum \<Rightarrow> jsnum \<times> jsnum \<times> nat \<times> nat" where
  "scan_step ignoreZero st v =
     (case st of (mn, mx, nZero, nNan) \<Rightarrow>
        if isNaN v then (mn, mx, nZero, nNan + 1)
        else if js_eq v (Fin 0) \<and> ignoreZero then (mn, mx, nZero + 1, nNan)
        else (js_min v mn, js_max v mx, (if js_eq v (Fin 0) then nZero + 1 else nZero), nNan))"

definition scan :: "bool \<Rightarrow> jsnum list \<Rightarrow> jsnum \<times> jsnum \<times> nat \<times> nat" where
  "scan ignoreZero voxels =
     foldl (scan_step ignoreZero) (js_get voxels 0, js_get voxels 0, 0, 0) voxels"

text \<open>
  The histogram. \<open>hist[Math.round((img[i] - mn) * scl)]++\<close> adds one to a bin when the
  index is one of \<open>0 .. nBins - 1\<close>; for any other index it stores NaN in a property
  outside the bins, which no later read tells from a missing element. The loop runs
  \<open>for (let i = 0; i <= nVox; i++)\<close>, so it reads one element past the end.
\<close>

definition hist_inc :: "nat list \<Rightarrow> jsnum \<Rightarrow> nat list" where
  "hist_inc hist k =
     (case k of
        Fin r \<Rightarrow> if 0 \<le> r \<and> r < real (length hist)
                 then hist[nat \<lfloor>r\<rfloor> := hist ! nat \<lfloor>r\<rfloor> + 1] else hist
      | _ \<Rightarrow> hist)"

definition hist_step :: "bool \<Rightarrow> jsnum \<Rightarrow> jsnum \<Rightarrow> nat list \<Rightarrow> jsnum \<Rightarrow> nat list" where
  "hist_step ignoreZero mn scl hist v =
     (if ignoreZero
      then (if js_eq v (Fin 0) then hist
            else if isNaN v then hist
            else hist_inc hist (js_round (js_mul (js_sub v mn) scl)))
      else (if isNaN v then hist
            else hist_inc hist (js_round (js_mul (js_sub v mn) scl))))"

definition build_hist :: "bool \<Rightarrow> nat \<Rightarrow> jsnum \<Rightarrow> jsnum \<Rightarrow> jsnum list \<Rightarrow> nat list" where
  "build_hist ignoreZero nBins mn scl voxels =
     foldl (hist_step ignoreZero mn scl) (replicate nBins 0)
       (map (js_get voxels) [0..<length voxels + 1])"

text \<open>
  The walk from the low end, \<open>while (n < n2pct) { n += hist[lo]; lo++; }\<close>, and the walk
  from the high end, \<open>while (n < n2pct) { hi--; n += hist[hi]; }\<close>. A read outside the
  bins makes \<open>n\<close> NaN, and the loop stops there. The walks return \<open>lo\<close> and \<open>hi\<close> as the
  loops leave them (before the \<open>lo--\<close> that follows the first).
\<close>

function walk_lo :: "nat list \<Rightarrow> jsnum \<Rightarrow> nat \<Rightarrow> nat \<Rightarrow> nat" where
  "walk_lo hist n2pct n lo =
     (if js_lt (Fin (real n)) n2pct
      then (if lo < length hist then walk_lo hist n2pct (n + hist ! lo) (lo + 1) else lo + 1)
      else lo)"
  by pat_completeness auto
termination
  by (relation "measure (\<lambda>(hist, n2pct, n, lo). length hist - lo)") auto

declare walk_lo.simps [simp del]

function walk_hi :: "nat list \<Rightarrow> jsnum \<Rightarrow> nat \<Rightarrow> nat \<Rightarrow> int" where
  "walk_hi hist n2pct n hi =
     (if js_lt (Fin (real n)) n2pct
      then (if hi = 0 then - 1
            else if hi - 1 < length hist then walk_hi hist n2pct (n + hist ! (hi - 1)) (hi - 1)
            else int hi - 1)
      else int hi)"
  by pat_completeness auto
termination
  by (relation "measure (\<lambda>(hist, n2pct, n, hi). hi)") auto

declare walk_hi.simps [simp del]

text \<open>
  The widening loop, entered when \<open>lo == hi\<close>:
  \<open>while (ok !== 0) { if (lo > 0) { lo--; if (hist[lo] > 0) ok = 0; }
  if (ok != 0 && hi < nBins - 1) { hi++; if (hist[hi] > 0) ok = 0; }
  if (lo == 0 && hi == nBins - 1) ok = 0; }\<close>. Nothing in the loop itself bounds the
  number of its passes, so the model returns \<open>None\<close> where it does not end. A read
  outside the bins gives \<open>undefined\<close>, and \<open>undefined > 0\<close> is false.
\<close>

definition hist_pos :: "nat list \<Rightarrow> int \<Rightarrow> bool" where
  "hist_pos hist i = (0 \<le> i \<and> nat i < length hist \<and> 0 < hist ! nat i)"

partial_function (option) widen :: "nat list \<Rightarrow> int \<Rightarrow> int \<Rightarrow> int \<Rightarrow> (int \<times> int) option" where
  "widen hist nBins lo hi =
     (let lo1 = (if 0 < lo then lo - 1 else lo);
          ok1 = (0 < lo \<and> hist_pos hist lo1);
          hi1 = (if \<not> ok1 \<and> hi < nBins - 1 then hi + 1 else hi);
          ok2 = (ok1 \<or> (\<not> ok1 \<and> hi < nBins - 1 \<and> hist_pos hist hi1));
          ok3 = (ok2 \<or> (lo1 = 0 \<and> hi1 = nBins - 1))
      in if ok3 then Some (lo1, hi1) else widen hist nBins lo1 hi1)"

text \<open>
  The histogram stage up to the two cut bins: the histogram, the two walks, the
  \<open>lo--\<close> and the widening on a tie.
\<close>

definition robust_cuts ::
  "bool \<Rightarrow> jsnum \<Rightarrow> jsnum \<Rightarrow> jsnum \<Rightarrow> jsnum list \<Rightarrow> (int \<times> int) option" where
  "robust_cuts ignoreZero n2pct mn mx voxels =
     (let nBins = 1001;
          scl = js_div (Fin (real nBins - 1)) (js_sub mx mn);
          hist = build_hist ignoreZero nBins mn scl voxels;
          lo = int (walk_lo hist n2pct 0 0) - 1;
          hi = walk_hi hist n2pct 0 nBins
      in if lo = hi then widen hist (int nBins) lo hi else Some (lo, hi))"

text \<open>
  The raw minimum and maximum and the number of voxels in each tail,
  \<open>n2pct = Math.round((nVox - nZero) * percentileFrac)\<close>, where \<open>nZero\<close> counts the NaNs
  and, when zeros are ignored, the zeros.
\<close>

definition first_pass :: "nvimage \<Rightarrow> jsnum \<times> jsnum \<times> jsnum" where
  "first_pass this =
     (let (mn, mx, nZero, nNan) = scan (ignoreZeroVoxels this) (img this);
          nVox = length (img this);
          nZero = (if \<not> ignoreZeroVoxels this then 0 else nZero);
          nZero = nZero + nNan;
          n2pct = js_round (js_mul (Fin (real nVox - real nZero)) (percentileFrac this))
      in (mn, mx, n2pct))"

text \<open>
  \<open>calMinMax\<close>. The array that the function returns repeats the values it has stored in
  the image and is left out; the result is the image as the call leaves it, or \<open>None\<close>
  if the call does not return. \<open>mn === mx\<close> compares two numbers, or \<open>undefined\<close> with
  itself when the buffer is empty.
\<close>

definition calMinMax :: "cmaps \<Rightarrow> nvimage \<Rightarrow> nvimage option" where
  "calMinMax cmaps this =
     (let cm = colorMap this;
          (cmMin, cmMax) = (case cmaps (toLowerCase cm) of
                              Some (mn, mx) \<Rightarrow> (mn, mx)
                            | None \<Rightarrow> (Fin 0, Fin 0))
      in if js_eq cmMin cmMax \<and> trustCalMinMax this
            \<and> isFinite (header.cal_min (hdr this)) \<and> isFinite (header.cal_max (hdr this))
            \<and> js_gt (header.cal_max (hdr this)) (header.cal_min (hdr this))
         then Some (this\<lparr>cal_min := header.cal_min (hdr this),
                          cal_max := header.cal_max (hdr this),
                          robust_min := header.cal_min (hdr this),
                          robust_max := header.cal_max (hdr this),
                          global_min := header.cal_min (hdr this),
                          global_max := header.cal_max (hdr this)\<rparr>)
         else if \<not> js_eq cmMin cmMax
         then Some (this\<lparr>cal_min := cmMin, cal_max := cmMax,
                          robust_min := cmMin, robust_max := cmMax\<rparr>)
         else
          (let (mn, mx, n2pct) = first_pass this;
               (h1, mnScale) = intensityRaw2Scaled (hdr this) mn;
               (h2, mxScale) = intensityRaw2Scaled h1 mx
           in if js_lt n2pct (Fin 1) \<or> img this = [] \<or> js_eq mn mx
              then Some (this\<lparr>hdr := h2, cal_min := mnScale, cal_max := mxScale,
                               robust_min := mnScale, robust_max := mxScale,
                               global_min := mnScale, global_max := mxScale\<rparr>)
              else
               (case robust_cuts (ignoreZeroVoxels this) n2pct mn mx (img this) of
                  None \<Rightarrow> None
                | Some (lo, hi) \<Rightarrow>
                   (let scl = js_div (Fin 1000) (js_sub mx mn);
                        (h3, pct2) = intensityRaw2Scaled h2
                                       (js_add (js_div (Fin (of_int lo)) scl) mn);
                        (h4, pct98) = intensityRaw2Scaled h3
                                        (js_add (js_div (Fin (of_int hi)) scl) mn);
                        inside = (js_lt (header.cal_min h4) (header.cal_max h4)
                                  \<and> js_ge (header.cal_min h4) mnScale
                                  \<and> js_le (header.cal_max h4) mxScale);
                        pct2 = (if inside then header.cal_min h4 else pct2);
                        pct98 = (if inside then header.cal_max h4 else pct98)
                    in Some (this\<lparr>hdr := h4, cal_min := pct2, cal_max := pct98,
                                     robust_min := pct2, robust_max := pct98,
                                     global_min := mnScale, global_max := mxScale\<rparr>)))))"

text \<open>
  \<open>setColorMap\<close>: a name whose lower-case form is a key of the registry is stored in
  lower case and the range is computed again; any other name only draws a warning from
  the logger.
\<close>

definition setColorMap :: "cmaps \<Rightarrow> string \<Rightarrow> nvimage \<Rightarrow> nvimage option" where
  "setColorMap cmaps cm this =
     (if toLowerCase cm \<in> dom cmaps
      then calMinMax cmaps (this\<lparr>colorMap := toLowerCase cm\<rparr>)
      else Some this)"






section \<open>The NRRD header: the \<open>encoding\<close> and \<open>type\<close> keys\<close>

text \<open>
  \<open>readNRRD\<close> reads the header line by line and switches on the key of each
  \<open>key: value\<close> line, the value trimmed and in lower case. The case of the key
  \<open>encoding\<close> sets the flag \<open>isGz\<close>; for a value that holds neither \<open>raw\<close> nor \<open>gz\<close> it
  calls \<open>alert\<close>, which shows the message and returns, and the loop goes on with the next
  line. The state below is that flag and the messages shown so far.
\<close>

record nrrd_flags =
  isGz :: bool
  alerts :: "string list"

text \<open>\<open>String.prototype.includes\<close>: the argument occurs somewhere in the string.\<close>

fun str_includes :: "string \<Rightarrow> string \<Rightarrow> bool" where
  "str_includes [] sub = (sub = [])"
| "str_includes (c # s) sub = (take (length sub) (c # s) = sub \<or> str_includes s sub)"

definition case_encoding :: "string \<Rightarrow> nrrd_flags \<Rightarrow> error + nrrd_flags" where
  "case_encoding val st =
     (if str_includes val ''raw'' then Inr (st\<lparr>isGz := False\<rparr>)
      else if str_includes val ''gz'' then Inr (st\<lparr>isGz := True\<rparr>)
      else Inr (st\<lparr>alerts := alerts st @ [''Unsupported NRRD encoding'']\<rparr>))"

text \<open>
  The case of the key \<open>type\<close>, next to it in the same \<open>switch\<close>, maps the spellings of
  the types to a bit depth and a datatype code, and throws on any other spelling.
\<close>

definition case_type :: "string \<Rightarrow> header \<Rightarrow> error + header" where
  "case_type val h =
     (if val \<in> set [''uchar'', ''unsigned char'', ''uint8'', ''uint8_t'']
      then Inr (h\<lparr>numBitsPerVoxel := 8, datatypeCode := DT_UNSIGNED_CHAR\<rparr>)
      else if val \<in> set [''signed char'', ''int8'', ''int8_t'']
      then Inr (h\<lparr>numBitsPerVoxel := 8, datatypeCode := DT_INT8\<rparr>)
      else if val \<in> set [''short'', ''short int'', ''signed short'', ''signed short int'',
                           ''int16'', ''int16_t'']
      then Inr (h\<lparr>numBitsPerVoxel := 16, datatypeCode := DT_SIGNED_SHORT\<rparr>)
      else if val \<in> set [''ushort'', ''unsigned short'', ''unsigned short int'', ''uint16'',
                           ''uint16_t'']
      then Inr (h\<lparr>numBitsPerVoxel := 16, datatypeCode := DT_UINT16\<rparr>)
      else if val \<in> set [''int'', ''signed int'', ''int32'', ''int32_t'']
      then Inr (h\<lparr>numBitsPerVoxel := 32, datatypeCode := DT_SIGNED_INT\<rparr>)
      else if val \<in> set [''uint'', ''unsigned int'', ''uint32'', ''uint32_t'']
      then Inr (h\<lparr>numBitsPerVoxel := 32, datatypeCode := DT_UINT32\<rparr>)
      else if val = ''float''
      then Inr (h\<lparr>numBitsPerVoxel := 32, datatypeCode := DT_FLOAT\<rparr>)
      else if val = ''double''
      then Inr (h\<lparr>numBitsPerVoxel := 64, datatypeCode := DT_DOUBLE\<rparr>)
      else Inl (UnsupportedNRRDType val))"


section \<open>Objects and references: \<open>clone\<close>\<close>

text \<open>
  \<open>clone\<close> copies objects, and what it shares with its source depends on which values
  are references. A value is a number, a string, a boolean, \<open>undefined\<close> or the address
  of an object; an object is a plain object with its own properties in the order of
  their creation, an \<open>Array\<close> or a typed array; the heap is the list of the objects, the
  address of an object being its position.
\<close>

datatype val = Undefined | Num jsnum | Str string | Bool bool | Ref nat

datatype obj =
    Object "(string \<times> val) list"
  | Array "val list"
  | TypedArray "jsnum list"

type_synonym heap = "obj list"

definition alloc :: "heap \<Rightarrow> obj \<Rightarrow> heap \<times> nat" where
  "alloc H ob = (H @ [ob], length H)"

definition own_props :: "heap \<Rightarrow> val \<Rightarrow> (string \<times> val) list" where
  "own_props H v =
     (case v of
        Ref a \<Rightarrow> (if a < length H then (case H ! a of Object ps \<Rightarrow> ps | _ \<Rightarrow> []) else [])
      | _ \<Rightarrow> [])"

definition get_prop :: "heap \<Rightarrow> val \<Rightarrow> string \<Rightarrow> val" where
  "get_prop H v p = (case map_of (own_props H v) p of Some x \<Rightarrow> x | None \<Rightarrow> Undefined)"

fun assign :: "string \<Rightarrow> val \<Rightarrow> (string \<times> val) list \<Rightarrow> (string \<times> val) list" where
  "assign p v [] = [(p, v)]"
| "assign p v ((q, w) # ps) = (if q = p then (p, v) # ps else (q, w) # assign p v ps)"

definition set_prop :: "heap \<Rightarrow> nat \<Rightarrow> string \<Rightarrow> val \<Rightarrow> heap" where
  "set_prop H a p v =
     (if a < length H
      then (case H ! a of Object ps \<Rightarrow> H[a := Object (assign p v ps)] | _ \<Rightarrow> H)
      else H)"

text \<open>
  Elements of arrays: \<open>arr[i]\<close> and \<open>arr[i] = v\<close>. A write past the end of an \<open>Array\<close>
  extends it; a typed array has a fixed length and holds numbers.
\<close>

definition to_num :: "val \<Rightarrow> jsnum" where
  "to_num v = (case v of Num x \<Rightarrow> x | _ \<Rightarrow> NaN)"

definition get_elem :: "heap \<Rightarrow> val \<Rightarrow> nat \<Rightarrow> val" where
  "get_elem H v i =
     (case v of
        Ref a \<Rightarrow>
          (if a < length H
           then (case H ! a of
                   Array xs \<Rightarrow> (if i < length xs then xs ! i else Undefined)
                 | TypedArray xs \<Rightarrow> (if i < length xs then Num (xs ! i) else Undefined)
                 | Object ps \<Rightarrow> Undefined)
           else Undefined)
      | _ \<Rightarrow> Undefined)"

definition set_elem :: "heap \<Rightarrow> val \<Rightarrow> nat \<Rightarrow> val \<Rightarrow> heap" where
  "set_elem H v i x =
     (case v of
        Ref a \<Rightarrow>
          (if a < length H
           then (case H ! a of
                   Array xs \<Rightarrow>
                     H[a := Array (if i < length xs then xs[i := x]
                                   else xs @ replicate (i - length xs) Undefined @ [x])]
                 | TypedArray xs \<Rightarrow> H[a := TypedArray (xs[i := to_num x])]
                 | Object ps \<Rightarrow> H)
           else H)
      | _ \<Rightarrow> H)"

text \<open>
  \<open>new NVImage()\<close> without a data buffer: the constructor stores the datatype codes, the
  name, a fresh id (the parameter \<open>uuid\<close>), the defaults of its parameters, and returns
  at \<open>if (!dataBuffer) return\<close>.
\<close>

definition NVImage_empty :: "string \<Rightarrow> (string \<times> val) list" where
  "NVImage_empty uuid =
     [(''DT_NONE'', Num (Fin 0)), (''DT_UNKNOWN'', Num (Fin 0)), (''DT_BINARY'', Num (Fin 1)),
      (''DT_UNSIGNED_CHAR'', Num (Fin 2)), (''DT_SIGNED_SHORT'', Num (Fin 4)),
      (''DT_SIGNED_INT'', Num (Fin 8)), (''DT_FLOAT'', Num (Fin 16)),
      (''DT_COMPLEX'', Num (Fin 32)), (''DT_DOUBLE'', Num (Fin 64)), (''DT_RGB'', Num (Fin 128)),
      (''DT_ALL'', Num (Fin 255)), (''DT_INT8'', Num (Fin 256)), (''DT_UINT16'', Num (Fin 512)),
      (''DT_UINT32'', Num (Fin 768)), (''DT_INT64'', Num (Fin 1024)),
      (''DT_UINT64'', Num (Fin 1280)), (''DT_FLOAT128'', Num (Fin 1536)),
      (''DT_COMPLEX128'', Num (Fin 1792)), (''DT_COMPLEX256'', Num (Fin 2048)),
      (''DT_RGBA32'', Num (Fin 2304)),
      (''name'', Str ''''), (''id'', Str uuid), (''colorMap'', Str ''gray''),
      (''frame4D'', Num (Fin 0)), (''opacity'', Num (Fin 1)),
      (''percentileFrac'', Num (Fin (2 / 100))), (''ignoreZeroVoxels'', Bool False),
      (''trustCalMinMax'', Bool True), (''visible'', Bool True)]"

text \<open>
  The two calls that derive the fields of the clone. What they compute is the subject
  of the sections above; here the values are parameters, and the model is where the
  calls store them. \<open>calculateRAS\<close> (with \<open>calculateOblique\<close>) stores a fresh array in
  each of nine properties of \<open>this\<close>, \<open>toRAS\<close> before \<open>matRAS\<close> when no reorientation is
  needed and after it otherwise; \<open>ras p\<close> is the array stored in the property \<open>p\<close>.
  \<open>calMinMax\<close> stores numbers in up to six properties of \<open>this\<close>, after
  \<open>intensityRaw2Scaled\<close> has stored 1 into a zero \<open>scl_slope\<close> of \<open>this.hdr\<close>; \<open>rng p\<close> is
  the value stored in \<open>p\<close>, or \<open>None\<close> when the path taken does not assign \<open>p\<close>. Neither
  call writes into an array that it reads.
\<close>

definition store_array :: "heap \<Rightarrow> nat \<Rightarrow> string \<Rightarrow> obj \<Rightarrow> heap" where
  "store_array H this p ob = (case alloc H ob of (H', a) \<Rightarrow> set_prop H' this p (Ref a))"

definition calculateRAS_store :: "bool \<Rightarrow> (string \<Rightarrow> obj) \<Rightarrow> heap \<Rightarrow> nat \<Rightarrow> heap" where
  "calculateRAS_store identity ras H this =
     foldl (\<lambda>H p. store_array H this p (ras p)) H
       ([''mm000'', ''mm100'', ''mm010'', ''mm001'', ''dimsRAS'', ''pixDimsRAS'']
        @ (if identity then [''toRAS'', ''matRAS''] else [''matRAS'', ''toRAS''])
        @ [''obliqueRAS''])"

definition calMinMax_store :: "(string \<Rightarrow> val option) \<Rightarrow> heap \<Rightarrow> nat \<Rightarrow> heap" where
  "calMinMax_store rng H this =
     (let H1 = (case (rng ''scl_slope'', get_prop H (Ref this) ''hdr'') of
                  (Some v, Ref h) \<Rightarrow> set_prop H h ''scl_slope'' v
                | _ \<Rightarrow> H)
      in foldl (\<lambda>H p. case rng p of Some v \<Rightarrow> set_prop H this p v | None \<Rightarrow> H) H1
           [''cal_min'', ''cal_max'', ''robust_min'', ''robust_max'', ''global_min'',
            ''global_max''])"

text \<open>
  \<open>clone\<close>: a new image object; \<open>clonedImage.id = this.id\<close>;
  \<open>clonedImage.hdr = Object.assign({}, this.hdr)\<close>, a new object with the own properties
  of the header, each with the value it has in the header; \<open>clonedImage.img =
  this.img.slice()\<close>, a new typed array with the same elements, or a TypeError when
  \<open>this.img\<close> is no typed array; then the two calls. The result is the heap and the
  address of the clone.
\<close>

definition clone ::
  "string \<Rightarrow> bool \<Rightarrow> (string \<Rightarrow> obj) \<Rightarrow> (string \<Rightarrow> val option) \<Rightarrow> heap \<Rightarrow> nat
     \<Rightarrow> error + heap \<times> nat" where
  "clone uuid identity ras rng H this =
     (case alloc H (Object (NVImage_empty uuid)) of (H1, clonedImage) \<Rightarrow>
      let H2 = set_prop H1 clonedImage ''id'' (get_prop H1 (Ref this) ''id'') in
      case alloc H2 (Object (own_props H2 (get_prop H2 (Ref this) ''hdr''))) of (H3, hdrCopy) \<Rightarrow>
      let H4 = set_prop H3 clonedImage ''hdr'' (Ref hdrCopy) in
      case get_prop H4 (Ref this) ''img'' of
        Ref i \<Rightarrow>
          (if i < length H4
           then (case H4 ! i of
                   TypedArray xs \<Rightarrow>
                     (case alloc H4 (TypedArray xs) of (H5, imgCopy) \<Rightarrow>
                      let H6 = set_prop H5 clonedImage ''img'' (Ref imgCopy);
                          H7 = calculateRAS_store identity ras H6 clonedImage;
                          H8 = calMinMax_store rng H7 clonedImage
                      in Inr (H8, clonedImage))
                 | _ \<Rightarrow> Inl TypeError)
           else Inl TypeError)
      | _ \<Rightarrow> Inl TypeError)"


section \<open>Concrete inputs\<close>

text \<open>
  A header whose stored affine has an all-zero first row and column, with a zero and a
  NaN among its spacings and a quaternion with \<open>b = c = d = 1\<close>.
\<close>

definition hdr0 :: header where
  "hdr0 = \<lparr>dims = [3, 2, 2, 2, 1, 0, 0, 0],
           pixDims = [Fin 1, Fin 0, NaN, Fin 2, Fin 1, Fin 0, Fin 0, Fin 0],
           datatypeCode = 16, numBitsPerVoxel = 32, littleEndian = True,
           scl_slope = Fin 1, scl_inter = Fin 0, cal_min = Fin 0, cal_max = Fin 0,
           qform_code = 0, sform_code = 1,
           quatern_b = Fin 1, quatern_c = Fin 1, quatern_d = Fin 1,
           qoffset_x = Fin 0, qoffset_y = Fin 0, qoffset_z = Fin 0,
           affine = [[Fin 0, Fin 0, Fin 0, Fin 0], [Fin 0, Fin 1, Fin 0, Fin 0],
                     [Fin 0, Fin 0, Fin 1, Fin 0], [Fin 0, Fin 0, Fin 0, Fin 1]]\<rparr>"

text \<open>
  A registry of two colormaps, one without a range of its own and one with the range
  2 .. 5, and an image of two voxels 0 and 1 on the header above, with the defaults of
  the constructor.
\<close>

definition cmaps0 :: cmaps where
  "cmaps0 = [''gray'' \<mapsto> (Fin 0, Fin 0), ''blue2red'' \<mapsto> (Fin 2, Fin 5)]"

definition im0 :: nvimage where
  "im0 = \<lparr>hdr = hdr0, img = [Fin 0, Fin 1], colorMap = ''gray'', trustCalMinMax = True,
          percentileFrac = Fin (2 / 100), ignoreZeroVoxels = False,
          cal_min = Fin 0, cal_max = Fin 0, robust_min = Fin 0, robust_max = Fin 0,
          global_min = Fin 0, global_max = Fin 0\<rparr>"


(*PROPERTIES*)
section \<open>Properties of the affine resolution\<close>

lemma upt3: "[0..<3] = [0, 1, 2]"
  by (simp add: upt_rec)

lemma upt4: "[0..<4] = [0, 1, 2, 3]"
  by (simp add: upt_rec)

lemma foldl_pairs:
  "foldl f m (concat (map (\<lambda>i. map (\<lambda>j. (i, j)) [0..<3]) [0..<3])) =
    f (f (f (f (f (f (f (f (f m (0,0)) (0,1)) (0,2)) (1,0)) (1,1)) (1,2)) (2,0)) (2,1)) (2,2)"
  by (simp add: upt3)

lemma js_add_NaN [simp]: "js_add x NaN = NaN"
  by (cases x) simp_all

lemma js_mul_NaN [simp]: "js_mul x NaN = NaN"
  by (cases x) simp_all

lemma js_sub_NaN [simp]: "js_sub x NaN = NaN" "js_sub NaN x = NaN"
  by (simp_all add: js_sub_def)


lemma length_mat_set [simp]: "length (mat_set m i j v) = length m"
  by (simp add: mat_set_def)

lemma mat_set_Nil [simp]: "(mat_set m i j v = []) = (m = [])"
  by (simp add: mat_set_def)


subsection \<open>The repaired affine is valid\<close>

lemma fix_pixdim_ok: "\<not> isNaN (fix_pixdim x) \<and> \<not> js_eq (fix_pixdim x) (Fin 0)"
  by (cases x) (auto simp: fix_pixdim_def)

lemma isAffineOK_diag:
  assumes "\<not> isNaN x" "\<not> js_eq x (Fin 0)" "\<not> isNaN y" "\<not> js_eq y (Fin 0)"
    and "\<not> isNaN z" "\<not> js_eq z (Fin 0)"
  shows "isAffineOK (diag_affine x y z)"
  using assms
  by (simp add: isAffineOK_def anyNaN_def marks_def mark_def diag_affine_def mat_at_def
      mat_row_def js_get_def upt4 upt3)

lemma affine_repair:
  "affine (repair h) =
     diag_affine (fix_pixdim (js_get (pixDims h) 1)) (fix_pixdim (js_get (pixDims h) 2))
       (fix_pixdim (js_get (pixDims h) 3))"
  by (simp add: repair_def Let_def)

lemma repair_ok: "isAffineOK (affine (repair h))"
  by (simp add: affine_repair isAffineOK_diag fix_pixdim_ok)


lemma hdr0_defective: "\<not> isAffineOK (affine hdr0)"
  by (simp add: hdr0_def isAffineOK_def anyNaN_def marks_def mark_def mat_at_def mat_row_def
      js_get_def upt4 upt3)

text \<open>
  Claim C1. For every header whose affine fails \<open>isAffineOK\<close>, the repair step replaces
  each of \<open>pixDims[1..3]\<close> that is NaN or zero by 1 and rebuilds the affine as the
  diagonal matrix of the three spacings and 1, with zero translation; that matrix passes
  \<open>isAffineOK\<close>.
\<close>

theorem repair_isAffineOK:
  "\<not> isAffineOK (affine h) \<Longrightarrow>
     affine (repair h) =
       diag_affine (fix_pixdim (js_get (pixDims h) 1)) (fix_pixdim (js_get (pixDims h) 2))
         (fix_pixdim (js_get (pixDims h) 3))
     \<and> isAffineOK (affine (repair h))"
  by (intro conjI affine_repair repair_ok)

theorem repair_isAffineOK_witness:
  "\<not> isAffineOK (affine hdr0)
   \<and> affine (repair hdr0) = diag_affine (Fin 1) (Fin 1) (Fin 2)
   \<and> isAffineOK (affine (repair hdr0))"
proof -
  have p: "pixDims hdr0 = [Fin 1, Fin 0, NaN, Fin 2, Fin 1, Fin 0, Fin 0, Fin 0]"
    by (simp add: hdr0_def)
  have f: "fix_pixdim (Fin 0) = Fin 1" "fix_pixdim NaN = Fin 1" "fix_pixdim (Fin 2) = Fin 2"
    by (simp_all add: fix_pixdim_def)
  have a: "affine (repair hdr0) = diag_affine (Fin 1) (Fin 1) (Fin 2)"
    by (simp add: affine_repair p js_get_def f)
  from repair_isAffineOK [OF hdr0_defective]
  have b: "isAffineOK (affine (repair hdr0))"
    by (rule conjunct2)
  from hdr0_defective a b show ?thesis
    by blast
qed

text \<open>After the constructor's resolution the affine is valid, whatever the header held.\<close>

lemma resolve_affine_ok: "isAffineOK (affine (resolve_affine u h))"
  by (simp add: resolve_affine_def Let_def repair_ok)

subsection \<open>The quaternion branch does not clamp\<close>

lemma length_qform_cell [simp]: "length (qform_cell R pd qfac m oi) = length m"
  by (cases oi) (simp add: qform_cell_def Let_def)

lemma qform_cell_Nil [simp]: "(qform_cell R pd qfac m oi = []) = (m = [])"
  by (cases oi) (simp add: qform_cell_def Let_def)

lemma length_qform_affine [simp]: "length (qform_affine R pd qfac qx qy qz m) = length m"
  by (simp add: qform_affine_def foldl_pairs Let_def)










section \<open>Properties of the byte swap\<close>

lemma mask_ff: "(0xff :: 32 word) = mask 8"
  by (simp add: mask_eq_exp_minus_1)

lemma mask_ff00: "(0xff00 :: 32 word) = push_bit 8 (mask 8)"
  by (simp add: mask_eq_exp_minus_1 push_bit_eq_mult)

lemma bit_shl24: "bit (push_bit 24 ((v :: 32 word) AND 0xff)) n = (24 \<le> n \<and> n < 32 \<and> bit v (n - 24))"
  unfolding mask_ff by (auto simp add: bit_simps)

lemma bit_shl8_hi: "bit (push_bit 8 ((v :: 32 word) AND 0xff00)) n = (16 \<le> n \<and> n < 24 \<and> bit v (n - 8))"
  unfolding mask_ff00 by (auto simp add: bit_simps)

lemma bit_sar8_hi: "bit (signed_drop_bit 8 (v :: 32 word) AND 0xff00) n = (8 \<le> n \<and> n < 16 \<and> bit v (n + 8))"
  unfolding mask_ff00 by (auto simp add: bit_simps add.commute)

lemma bit_sar24: "bit (signed_drop_bit 24 (v :: 32 word) AND 0xff) n = (n < 8 \<and> bit v (n + 24))"
  unfolding mask_ff by (auto simp add: bit_simps add.commute)

lemma bit_shl8: "bit (push_bit 8 ((v :: 32 word) AND 0xff)) n = (8 \<le> n \<and> n < 16 \<and> bit v (n - 8))"
  unfolding mask_ff by (auto simp add: bit_simps)

lemma bit_sar8: "bit (signed_drop_bit 8 (v :: 32 word) AND 0xff) n = (n < 8 \<and> bit v (n + 8))"
  unfolding mask_ff by (auto simp add: bit_simps add.commute)

text \<open>Bit \<open>n\<close> of the swapped element, for both widths.\<close>

lemma swap32_bits:
  "bit (swap32 v) n =
     ((24 \<le> n \<and> n < 32 \<and> bit v (n - 24)) \<or> (16 \<le> n \<and> n < 24 \<and> bit v (n - 8))
      \<or> (8 \<le> n \<and> n < 16 \<and> bit v (n + 8)) \<or> (n < 8 \<and> bit v (n + 24)))"
  unfolding swap32_def bit_or_iff bit_shl24 bit_shl8_hi bit_sar8_hi bit_sar24 by blast

lemma swap16_bits:
  "bit (swap16 v) n = ((8 \<le> n \<and> n < 16 \<and> bit v (n - 8)) \<or> (n < 8 \<and> bit v (n + 8)))"
proof -
  define w where "w = push_bit 8 ((ucast v :: 32 word) AND 0xff)
                        OR (signed_drop_bit 8 (ucast v :: 32 word) AND 0xff)"
  have w: "bit w k = ((8 \<le> k \<and> k < 16 \<and> bit v (k - 8)) \<or> (k < 8 \<and> bit v (k + 8)))" for k
    unfolding w_def bit_or_iff bit_shl8 bit_sar8 by (auto simp: bit_ucast_iff)
  have "swap16 v = ucast (signed_drop_bit 16 (push_bit 16 w))"
    unfolding swap16_def Let_def w_def ..
  then have "bit (swap16 v) n = (n < 16 \<and> bit w n)"
    by (auto simp: bit_ucast_iff bit_signed_drop_bit_iff bit_push_bit_iff)
  then show ?thesis
    using w [of n] by auto
qed

text \<open>The 16-bit and the 32-bit routine are involutions, on an element and on a buffer.\<close>

lemma swap16_involution: "swap16 (swap16 v) = v"
proof (rule bit_word_eqI)
  fix n
  assume "n < LENGTH(16)"
  then have n: "n < 16"
    by simp
  consider "n < 8" | "8 \<le> n" "n < 16"
    using n by linarith
  then show "bit (swap16 (swap16 v)) n = bit v n"
    by cases (auto simp add: swap16_bits)
qed

lemma swap32_involution: "swap32 (swap32 v) = v"
proof (rule bit_word_eqI)
  fix n
  assume "n < LENGTH(32)"
  then have n: "n < 32"
    by simp
  consider "n < 8" | "8 \<le> n" "n < 16" | "16 \<le> n" "n < 24" | "24 \<le> n" "n < 32"
    using n by linarith
  then show "bit (swap32 (swap32 v)) n = bit v n"
    by cases (auto simp add: swap32_bits)
qed

lemma swap16_buffer_involution: "swap16_buffer (swap16_buffer u16) = u16"
  by (simp add: swap16_buffer_def swap16_involution comp_def)

lemma swap32_buffer_involution: "swap32_buffer (swap32_buffer u32) = u32"
  by (simp add: swap32_buffer_def swap32_involution comp_def)

text \<open>
  The 64-bit routine throws on every buffer that holds a byte, and returns the empty
  buffer as it is. Were \<open>bytesPer\<close> bound to the element size, the loop would reverse
  the eight bytes of each element.
\<close>

lemma swap64_buffer_nonempty: "u8 \<noteq> [] \<Longrightarrow> swap64_buffer u8 = Inl (ReferenceError ''bytesPer'')"
  by (simp add: swap64_buffer_def bytesPer_def swap64_loop.simps)

lemma swap64_buffer_empty: "swap64_buffer [] = Inr []"
  by (simp add: swap64_buffer_def swap64_loop.simps)

lemma swap64_loop_bound:
  "swap64_loop (Some 8) 0 [1, 2, 3, 4, 5, 6, 7, 8, 9, 10, 11, 12, 13, 14, 15, 16] =
     Inr [8, 7, 6, 5, 4, 3, 2, 1, 16, 15, 14, 13, 12, 11, 10, 9]"
  by code_simp

text \<open>
  Claim C3 says that the endian swap of each width (16, 32, 64 bits) is an involution and
  that the 64-bit routine reverses the eight bytes of each element. The 16-bit and 32-bit
  routines are involutions (\<open>swap16_buffer_involution\<close>, \<open>swap32_buffer_involution\<close>).
  The 64-bit routine is not: on the eight bytes \<open>01 .. 08\<close> of one element it throws
  a ReferenceError for the unbound identifier \<open>bytesPer\<close> where the claim has the bytes
  reversed, so that it cannot be applied once, let alone twice.
\<close>

theorem swap64_buffer_throws:
  "swap64_buffer [1, 2, 3, 4, 5, 6, 7, 8] = Inl (ReferenceError ''bytesPer'')
   \<and> swap64_buffer [1, 2, 3, 4, 5, 6, 7, 8] \<noteq> Inr [8, 7, 6, 5, 4, 3, 2, 1]"
  by (simp add: swap64_buffer_def bytesPer_def swap64_loop.simps)

section \<open>Properties of the promoted datatypes\<close>

lemma bitlen_le_iff: "bitlen n \<le> k \<longleftrightarrow> n < 2 ^ k"
proof (induction k arbitrary: n)
  case 0
  show ?case
    by (subst bitlen.simps) simp
next
  case (Suc k)
  have "bitlen n \<le> Suc k \<longleftrightarrow> n = 0 \<or> bitlen (n div 2) \<le> k"
    by (subst bitlen.simps) simp
  also have "\<dots> \<longleftrightarrow> n = 0 \<or> n div 2 < 2 ^ k"
    by (simp add: Suc.IH)
  also have "\<dots> \<longleftrightarrow> n < 2 ^ Suc k"
    by auto
  finally show ?case .
qed

lemma bitlen_eqI: "2 ^ k \<le> n \<Longrightarrow> n < 2 ^ Suc k \<Longrightarrow> bitlen n = Suc k"
  using bitlen_le_iff [of n k] bitlen_le_iff [of n "Suc k"] by linarith

text \<open>The conversion of a BigInt is exact up to \<open>2\<^sup>5\<^sup>3\<close> in magnitude, and not beyond.\<close>

lemma number_of_bigint_small: "\<bar>x\<bar> < 2 ^ 53 \<Longrightarrow> number_of_bigint x = x"
proof -
  assume "\<bar>x\<bar> < 2 ^ 53"
  then have "nat \<bar>x\<bar> < 2 ^ 53"
    by (simp add: nat_less_iff)
  then show ?thesis
    by (simp add: number_of_bigint_def Let_def bitlen_le_iff)
qed

lemma bitlen_2_53: "bitlen 9007199254740992 = 54"
  using bitlen_eqI [of 53 9007199254740992] by simp

lemma number_of_bigint_exact: "\<bar>x\<bar> \<le> 2 ^ 53 \<Longrightarrow> number_of_bigint x = x"
proof (cases "\<bar>x\<bar> < 2 ^ 53")
  case True
  then show ?thesis
    by (rule number_of_bigint_small)
next
  case False
  assume "\<bar>x\<bar> \<le> 2 ^ 53"
  with False have "x = 9007199254740992 \<or> x = - 9007199254740992"
    by auto
  then show ?thesis
    by (auto simp add: number_of_bigint_def Let_def bitlen_2_53 round_ties_even_def)
qed

lemma bitlen_2_53_1: "bitlen 9007199254740993 = 54"
  using bitlen_eqI [of 53 9007199254740993] by simp

lemma number_of_bigint_2_53_1: "number_of_bigint 9007199254740993 = 9007199254740992"
  by (simp add: number_of_bigint_def Let_def bitlen_2_53_1 round_ties_even_def)

lemma length_foldl_update: "length (foldl (\<lambda>img i. img[i := f i]) acc is) = length acc"
  by (induction "is" arbitrary: acc) simp_all

lemma foldl_update_nth:
  "k < length acc \<Longrightarrow>
   foldl (\<lambda>img i. img[i := f i]) acc [0..<n] ! k = (if k < n then f k else acc ! k)"
proof (induction n)
  case 0
  then show ?case
    by simp
next
  case (Suc n)
  then show ?case
    by (auto simp: nth_list_update length_foldl_update less_Suc_eq)
qed

lemma length_promote_loop: "length (promote_loop conv z src) = length src"
  by (simp add: promote_loop_def Let_def length_foldl_update)

lemma promote_loop_nth:
  "k < length src \<Longrightarrow>
   promote_loop conv z src ! k = (if k < length src - 1 then conv (src ! k) else z)"
  by (simp add: promote_loop_def Let_def foldl_update_nth)

lemma promote_loop_last: "src \<noteq> [] \<Longrightarrow> promote_loop conv z src ! (length src - 1) = z"
  by (simp add: promote_loop_nth)

lemma promote_loop_2: "promote_loop conv z [a, b] = [conv a, z]"
  by (simp add: promote_loop_def)

lemma promote_loop_3: "promote_loop conv z [a, b, c] = [conv a, conv b, z]"
  by (simp add: promote_loop_def upt_rec)

text \<open>
  Claim C4, as the spec states it, fails for the signed 64-bit input: the element
  \<open>2\<^sup>5\<^sup>3 + 1\<close> at index 0 of a two-element source is copied as the double \<open>2\<^sup>5\<^sup>3\<close>.
\<close>

theorem case_DT_INT64_counterexample:
  "snd (case_DT_INT64 hdr0 [9007199254740993, 5]) ! 0 \<noteq>
     Fin (of_int (sint (([9007199254740993, 5] :: 64 word list) ! 0)))"
  by (simp add: case_DT_INT64_def promote_loop_2 number_of_bigint_2_53_1)

text \<open>
  Claim C4, amended. For each promoted datatype (signed 8-bit input widened to \<open>Int16\<close>;
  unsigned 32-bit, signed 32-bit and signed 64-bit input promoted to \<open>Float64\<close>) the
  output has the element count of the source; element \<open>i\<close> of it, for \<open>i\<close> from 0 to
  \<open>n - 2\<close>, is the source element converted to the output type, which is the same number
  for the 8-bit and 32-bit inputs and for a 64-bit element of magnitude at most \<open>2\<^sup>5\<^sup>3\<close>,
  and the nearest double for a larger 64-bit element; the last source element is not
  copied, the last output element staying zero; and the datatype code of the header
  becomes that of the signed short, respectively of the double.
\<close>

theorem promotion_copies_all_but_last:
  "(length (snd (case_DT_INT8 h i8)) = length i8
    \<and> (i < length i8 - 1 \<longrightarrow> sint (snd (case_DT_INT8 h i8) ! i) = sint (i8 ! i))
    \<and> (i8 \<noteq> [] \<longrightarrow> snd (case_DT_INT8 h i8) ! (length i8 - 1) = 0)
    \<and> datatypeCode (fst (case_DT_INT8 h i8)) = DT_SIGNED_SHORT)
   \<and> (length (snd (case_DT_UINT32 h u32)) = length u32
    \<and> (i < length u32 - 1 \<longrightarrow> snd (case_DT_UINT32 h u32) ! i = Fin (of_int (uint (u32 ! i))))
    \<and> (u32 \<noteq> [] \<longrightarrow> snd (case_DT_UINT32 h u32) ! (length u32 - 1) = Fin 0)
    \<and> datatypeCode (fst (case_DT_UINT32 h u32)) = DT_DOUBLE)
   \<and> (length (snd (case_DT_SIGNED_INT h i32)) = length i32
    \<and> (i < length i32 - 1 \<longrightarrow> snd (case_DT_SIGNED_INT h i32) ! i = Fin (of_int (sint (i32 ! i))))
    \<and> (i32 \<noteq> [] \<longrightarrow> snd (case_DT_SIGNED_INT h i32) ! (length i32 - 1) = Fin 0)
    \<and> datatypeCode (fst (case_DT_SIGNED_INT h i32)) = DT_DOUBLE)
   \<and> (length (snd (case_DT_INT64 h i64)) = length i64
    \<and> (i < length i64 - 1 \<longrightarrow>
          snd (case_DT_INT64 h i64) ! i = Fin (of_int (number_of_bigint (sint (i64 ! i))))
          \<and> (\<bar>sint (i64 ! i)\<bar> \<le> 2 ^ 53 \<longrightarrow>
               snd (case_DT_INT64 h i64) ! i = Fin (of_int (sint (i64 ! i)))))
    \<and> (i64 \<noteq> [] \<longrightarrow> snd (case_DT_INT64 h i64) ! (length i64 - 1) = Fin 0)
    \<and> datatypeCode (fst (case_DT_INT64 h i64)) = DT_DOUBLE)"
proof (intro conjI impI)
  show "sint (snd (case_DT_INT8 h i8) ! i) = sint (i8 ! i)" if "i < length i8 - 1"
  proof -
    have "sint (scast (i8 ! i) :: 16 word) = sint (i8 ! i)"
      by (rule sint_up_scast) (simp add: is_up)
    then have "sint (word_of_int (sint (i8 ! i)) :: 16 word) = sint (i8 ! i)"
      by simp
    with that show ?thesis
      by (simp add: case_DT_INT8_def promote_loop_nth)
  qed
  show "snd (case_DT_INT64 h i64) ! i = Fin (of_int (sint (i64 ! i)))"
    if "i < length i64 - 1" "\<bar>sint (i64 ! i)\<bar> \<le> 2 ^ 53"
    using that by (simp add: case_DT_INT64_def promote_loop_nth number_of_bigint_exact)
qed (simp_all add: case_DT_INT8_def case_DT_UINT32_def case_DT_SIGNED_INT_def case_DT_INT64_def
       length_promote_loop promote_loop_nth)

theorem promotion_copies_all_but_last_witness:
  "sint (snd (case_DT_INT8 hdr0 [128, 5, 7]) ! 0) = - 128
   \<and> snd (case_DT_INT8 hdr0 [128, 5, 7]) ! 2 = 0
   \<and> snd (case_DT_UINT32 hdr0 [4294967295, 5, 7]) ! 0 = Fin 4294967295
   \<and> snd (case_DT_SIGNED_INT hdr0 [4294967295, 5, 7]) ! 0 = Fin (- 1)
   \<and> snd (case_DT_INT64 hdr0 [9007199254740992, 5, 7]) ! 0 = Fin 9007199254740992
   \<and> snd (case_DT_INT64 hdr0 [9007199254740992, 5, 7]) ! 2 = Fin 0"
proof -
  note t = promotion_copies_all_but_last
    [of hdr0 "[128, 5, 7]" 0 "[4294967295, 5, 7]" "[4294967295, 5, 7]" "[9007199254740992, 5, 7]"]
  have a: "(0::nat) < length ([128, 5, 7] :: 8 word list) - 1"
    "(0::nat) < length ([4294967295, 5, 7] :: 32 word list) - 1"
    "(0::nat) < length ([9007199254740992, 5, 7] :: 64 word list) - 1"
    "\<bar>sint (([9007199254740992, 5, 7] :: 64 word list) ! 0)\<bar> \<le> 2 ^ 53"
    "([128, 5, 7] :: 8 word list) \<noteq> []" "([9007199254740992, 5, 7] :: 64 word list) \<noteq> []"
    by simp_all
  have l: "length ([128, 5, 7] :: 8 word list) - 1 = 2"
    "length ([9007199254740992, 5, 7] :: 64 word list) - 1 = 2"
    by simp_all
  have "sint (snd (case_DT_INT8 hdr0 [128, 5, 7]) ! 0) = sint (([128, 5, 7] :: 8 word list) ! 0)"
    using t a by blast
  then have c1: "sint (snd (case_DT_INT8 hdr0 [128, 5, 7]) ! 0) = - 128"
    by simp
  have "snd (case_DT_INT8 hdr0 [128, 5, 7]) ! (length ([128, 5, 7] :: 8 word list) - 1) = 0"
    using t a by blast
  then have c2: "snd (case_DT_INT8 hdr0 [128, 5, 7]) ! 2 = 0"
    unfolding l .
  have "snd (case_DT_UINT32 hdr0 [4294967295, 5, 7]) ! 0 =
          Fin (of_int (uint (([4294967295, 5, 7] :: 32 word list) ! 0)))"
    using t a by blast
  then have c3: "snd (case_DT_UINT32 hdr0 [4294967295, 5, 7]) ! 0 = Fin 4294967295"
    by simp
  have "snd (case_DT_SIGNED_INT hdr0 [4294967295, 5, 7]) ! 0 =
          Fin (of_int (sint (([4294967295, 5, 7] :: 32 word list) ! 0)))"
    using t a by blast
  then have c4: "snd (case_DT_SIGNED_INT hdr0 [4294967295, 5, 7]) ! 0 = Fin (- 1)"
    by simp
  have "snd (case_DT_INT64 hdr0 [9007199254740992, 5, 7]) ! 0 =
          Fin (of_int (sint (([9007199254740992, 5, 7] :: 64 word list) ! 0)))"
    using t a by blast
  then have c5: "snd (case_DT_INT64 hdr0 [9007199254740992, 5, 7]) ! 0 = Fin 9007199254740992"
    by simp
  have "snd (case_DT_INT64 hdr0 [9007199254740992, 5, 7])
          ! (length ([9007199254740992, 5, 7] :: 64 word list) - 1) = Fin 0"
    using t a by blast
  then have c6: "snd (case_DT_INT64 hdr0 [9007199254740992, 5, 7]) ! 2 = Fin 0"
    unfolding l .
  from c1 c2 c3 c4 c5 c6 show ?thesis
    by blast
qed

section \<open>Properties of \<open>calculateRAS\<close>\<close>

lemma ras_ixyz_cases:
  "ras_ixyz fround a \<in> {[1, 2, 3], [1, 3, 2], [2, 1, 3], [2, 3, 1], [3, 1, 2], [3, 2, 1]}"
  by (simp add: ras_ixyz_def Let_def)

lemma ras_perm_cases:
  "ixyz \<in> {[1, 2, 3], [1, 3, 2], [2, 1, 3], [2, 3, 1], [3, 1, 2], [3, 2, 1]} \<Longrightarrow>
   ras_perm ixyz \<in> {[1, 2, 3], [1, 3, 2], [2, 1, 3], [2, 3, 1], [3, 1, 2], [3, 2, 1]}
   \<and> ras_perm ixyz ! (ixyz ! 0 - 1) = 1 \<and> ras_perm ixyz ! (ixyz ! 1 - 1) = 2
   \<and> ras_perm ixyz ! (ixyz ! 2 - 1) = 3"
  by (auto simp add: ras_perm_def Let_def)

lemma ras_flip_cases: "length (ras_flip R) = 3 \<and> list_all (\<lambda>f. f = 0 \<or> f = 1) (ras_flip R)"
  by (simp add: ras_flip_def Let_def)

text \<open>
  Claim C5. For every affine (those with a non-degenerate leading 3x3 block among them,
  and whatever the rounding into the matrices of gl-matrix) the assignment \<open>ixyz\<close> that
  \<open>calculateRAS\<close> computes is a bijection on \<open>{1, 2, 3}\<close>, its third component being
  \<open>6 - ixyz[0] - ixyz[1]\<close>; the permutation \<open>perm\<close> built from it is a bijection on
  \<open>{1, 2, 3}\<close> too, the inverse of \<open>ixyz\<close>; and every component of the flip vector is 0
  or 1.
\<close>

theorem calculateRAS_perm_bijection:
  "length (ras_ixyz fround a) = 3 \<and> distinct (ras_ixyz fround a)
   \<and> set (ras_ixyz fround a) = {1, 2, 3}
   \<and> ras_ixyz fround a ! 2 = 6 - ras_ixyz fround a ! 0 - ras_ixyz fround a ! 1
   \<and> length (calculateRAS_perm fround a) = 3 \<and> distinct (calculateRAS_perm fround a)
   \<and> set (calculateRAS_perm fround a) = {1, 2, 3}
   \<and> calculateRAS_perm fround a ! (ras_ixyz fround a ! 0 - 1) = 1
   \<and> calculateRAS_perm fround a ! (ras_ixyz fround a ! 1 - 1) = 2
   \<and> calculateRAS_perm fround a ! (ras_ixyz fround a ! 2 - 1) = 3
   \<and> length (calculateRAS_flip fround a) = 3
   \<and> list_all (\<lambda>f. f = 0 \<or> f = 1) (calculateRAS_flip fround a)"
proof -
  have i: "ras_ixyz fround a \<in> {[1, 2, 3], [1, 3, 2], [2, 1, 3], [2, 3, 1], [3, 1, 2], [3, 2, 1]}"
    by (rule ras_ixyz_cases)
  note p = ras_perm_cases [OF i]
  have 1: "length (ras_ixyz fround a) = 3 \<and> distinct (ras_ixyz fround a)
   \<and> set (ras_ixyz fround a) = {1, 2, 3}
   \<and> ras_ixyz fround a ! 2 = 6 - ras_ixyz fround a ! 0 - ras_ixyz fround a ! 1"
    using i by auto
  have 2: "length (calculateRAS_perm fround a) = 3 \<and> distinct (calculateRAS_perm fround a)
   \<and> set (calculateRAS_perm fround a) = {1, 2, 3}"
    using p unfolding calculateRAS_perm_def by auto
  show ?thesis
    using 1 2 p ras_flip_cases [of "ras_R (ras_rotM fround a) (calculateRAS_perm fround a)"]
    unfolding calculateRAS_perm_def calculateRAS_flip_def by blast
qed


section \<open>Properties of \<open>calMinMax\<close> and \<open>setColorMap\<close>\<close>

lemma walk_lo_ge: "lo \<le> walk_lo hist t n lo"
proof (induction hist t n lo rule: walk_lo.induct)
  case (1 hist t n lo)
  show ?case
    using "1.IH" by (subst walk_lo.simps) auto
qed

lemma walk_lo_enter: "js_lt (Fin (real n)) t \<Longrightarrow> lo + 1 \<le> walk_lo hist t n lo"
  using walk_lo_ge [of "lo + 1" hist t "n + hist ! lo"]
  by (subst walk_lo.simps) auto

lemma walk_lo_skip: "\<not> js_lt (Fin (real n)) t \<Longrightarrow> walk_lo hist t n lo = lo"
  by (subst walk_lo.simps) simp

lemma walk_hi_le: "walk_hi hist t n hi \<le> int hi"
proof (induction hist t n hi rule: walk_hi.induct)
  case (1 hist t n hi)
  show ?case
    using "1.IH" by (subst walk_hi.simps) auto
qed

lemma walk_hi_enter: "js_lt (Fin (real n)) t \<Longrightarrow> walk_hi hist t n hi \<le> int hi - 1"
  using walk_hi_le [of hist t "n + hist ! (hi - 1)" "hi - 1"]
  by (subst walk_hi.simps) auto

lemma walk_hi_skip: "\<not> js_lt (Fin (real n)) t \<Longrightarrow> walk_hi hist t n hi = int hi"
  by (subst walk_hi.simps) simp

lemma widen_returns:
  assumes "0 \<le> lo" "hi \<le> nBins - 1"
  shows "\<exists>lo' hi'. widen hist nBins lo hi = Some (lo', hi') \<and> 0 \<le> lo' \<and> lo' \<le> lo
           \<and> hi \<le> hi' \<and> hi' \<le> nBins - 1
           \<and> (lo = 0 \<and> hi = nBins - 1 \<or> lo' < lo \<or> hi < hi')"
  using assms
proof (induction "nat lo + nat (nBins - 1 - hi)" arbitrary: lo hi rule: less_induct)
  case less
  define lo1 where "lo1 = (if 0 < lo then lo - 1 else lo)"
  define ok1 where "ok1 = (0 < lo \<and> hist_pos hist lo1)"
  define hi1 where "hi1 = (if \<not> ok1 \<and> hi < nBins - 1 then hi + 1 else hi)"
  define ok2 where "ok2 = (ok1 \<or> (\<not> ok1 \<and> hi < nBins - 1 \<and> hist_pos hist hi1))"
  define ok3 where "ok3 = (ok2 \<or> (lo1 = 0 \<and> hi1 = nBins - 1))"
  have w: "widen hist nBins lo hi = (if ok3 then Some (lo1, hi1) else widen hist nBins lo1 hi1)"
    by (subst widen.simps) (simp add: Let_def lo1_def ok1_def hi1_def ok2_def ok3_def)
  have b: "0 \<le> lo1" "lo1 \<le> lo" "hi \<le> hi1" "hi1 \<le> nBins - 1"
    using less.prems by (auto simp: lo1_def hi1_def)
  show ?case
  proof (cases ok3)
    case True
    have "lo = 0 \<and> hi = nBins - 1 \<or> lo1 < lo \<or> hi < hi1"
      using less.prems by (auto simp: lo1_def hi1_def ok1_def)
    with True w b show ?thesis
      by auto
  next
    case False
    then have nz: "\<not> (lo1 = 0 \<and> hi1 = nBins - 1)" and nok: "\<not> ok1"
      by (auto simp: ok3_def ok2_def)
    have moved: "lo1 < lo \<or> hi < hi1"
      using less.prems nz nok by (auto simp: lo1_def hi1_def split: if_splits)
    then have "nat lo1 + nat (nBins - 1 - hi1) < nat lo + nat (nBins - 1 - hi)"
      using b by linarith
    from less.hyps [OF this b(1) b(4)] obtain lo' hi' where
      r: "widen hist nBins lo1 hi1 = Some (lo', hi')" "0 \<le> lo'" "lo' \<le> lo1" "hi1 \<le> hi'"
        "hi' \<le> nBins - 1"
      by blast
    with False w b moved show ?thesis
      by auto
  qed
qed

lemma robust_cuts_returns: "\<exists>lo hi. robust_cuts ignoreZero n2pct mn mx voxels = Some (lo, hi)"
proof -
  define hist where
    "hist = build_hist ignoreZero 1001 mn (js_div (Fin (real (1001::nat) - 1)) (js_sub mx mn)) voxels"
  define lo where "lo = int (walk_lo hist n2pct 0 0) - 1"
  define hi where "hi = walk_hi hist n2pct 0 1001"
  have r: "robust_cuts ignoreZero n2pct mn mx voxels =
             (if lo = hi then widen hist 1001 lo hi else Some (lo, hi))"
    by (simp add: robust_cuts_def Let_def hist_def lo_def hi_def)
  show ?thesis
  proof (cases "lo = hi")
    case False
    with r show ?thesis by simp
  next
    case True
    have "0 \<le> lo \<and> hi \<le> 1000"
    proof (cases "js_lt (Fin (real (0::nat))) n2pct")
      case True
      from walk_lo_enter [OF True, of 0 hist] walk_hi_enter [OF True, of hist 1001]
      show ?thesis by (simp add: lo_def hi_def)
    next
      case False
      from walk_lo_skip [OF False, of hist 0] walk_hi_skip [OF False, of hist 1001] \<open>lo = hi\<close>
      show ?thesis by (simp add: lo_def hi_def)
    qed
    then have "0 \<le> lo" "hi \<le> 1001 - 1" by simp_all
    from widen_returns [OF this, of hist] True r show ?thesis
      by auto
  qed
qed

lemma robust_cuts_the:
  "robust_cuts ignoreZero n2pct mn mx voxels = Some (the (robust_cuts ignoreZero n2pct mn mx voxels))"
  using robust_cuts_returns [of ignoreZero n2pct mn mx voxels] by auto

lemma calMinMax_returns:
  "\<exists>im. calMinMax cmaps this = Some im \<and> robust_min im = cal_min im \<and> robust_max im = cal_max im"
  unfolding calMinMax_def
  by (subst robust_cuts_the) (simp add: Let_def split: prod.splits)


lemma calMinMax_colorMap: "calMinMax cmaps this = Some im \<Longrightarrow> colorMap im = colorMap this"
  unfolding calMinMax_def
  by (auto simp add: Let_def split: prod.splits option.splits if_splits)

lemma lower_char_idem: "lower_char (lower_char c) = lower_char c"
proof -
  have "of_char (char_of (of_char c + 32 :: nat)) = (of_char c + 32 :: nat)" if "(of_char c :: nat) \<le> 90"
    using that by simp
  then show ?thesis
    by (auto simp add: lower_char_def Let_def)
qed

lemma toLowerCase_idem: "toLowerCase (toLowerCase s) = toLowerCase s"
  by (simp add: toLowerCase_def lower_char_idem)

text \<open>
  Claim C10. For every name \<open>cm\<close> whose lower-case form is no key of the registry,
  \<open>setColorMap\<close> leaves the image as it is (\<open>colorMap\<close>, \<open>cal_min\<close>, \<open>cal_max\<close> and the
  robust and global ranges included); for a name whose lower-case form is a key it
  stores the lower-case name and computes the range again with \<open>calMinMax\<close>, which
  returns. Where the keys of the registry are in lower case, the lower-case form of
  \<open>cm\<close> is a key exactly when \<open>cm\<close> equals some key up to case.
\<close>

theorem setColorMap_registry:
  "(toLowerCase cm \<notin> dom cmaps \<longrightarrow> setColorMap cmaps cm this = Some this)
   \<and> (toLowerCase cm \<in> dom cmaps \<longrightarrow>
        setColorMap cmaps cm this = calMinMax cmaps (this\<lparr>colorMap := toLowerCase cm\<rparr>)
        \<and> (\<exists>im. setColorMap cmaps cm this = Some im \<and> colorMap im = toLowerCase cm))
   \<and> ((\<forall>k\<in>dom cmaps. toLowerCase k = k) \<longrightarrow>
        (toLowerCase cm \<in> dom cmaps) = (\<exists>k\<in>dom cmaps. toLowerCase k = toLowerCase cm))"
proof (intro conjI impI)
  show "setColorMap cmaps cm this = Some this" if "toLowerCase cm \<notin> dom cmaps"
    using that by (simp add: setColorMap_def)
  show "setColorMap cmaps cm this = calMinMax cmaps (this\<lparr>colorMap := toLowerCase cm\<rparr>)"
    if "toLowerCase cm \<in> dom cmaps"
    using that by (simp add: setColorMap_def)
  show "\<exists>im. setColorMap cmaps cm this = Some im \<and> colorMap im = toLowerCase cm"
    if "toLowerCase cm \<in> dom cmaps"
  proof -
    obtain im where im: "calMinMax cmaps (this\<lparr>colorMap := toLowerCase cm\<rparr>) = Some im"
      using calMinMax_returns by blast
    from calMinMax_colorMap [OF im] im that show ?thesis
      by (simp add: setColorMap_def)
  qed
  show "(toLowerCase cm \<in> dom cmaps) = (\<exists>k\<in>dom cmaps. toLowerCase k = toLowerCase cm)"
    if "\<forall>k\<in>dom cmaps. toLowerCase k = k"
  proof
    assume "toLowerCase cm \<in> dom cmaps"
    then show "\<exists>k\<in>dom cmaps. toLowerCase k = toLowerCase cm"
      using toLowerCase_idem by blast
  next
    assume "\<exists>k\<in>dom cmaps. toLowerCase k = toLowerCase cm"
    with that show "toLowerCase cm \<in> dom cmaps"
      by auto
  qed
qed


lemma toLowerCase_Jet: "toLowerCase ''Jet'' = ''jet''"
  by code_simp

lemma toLowerCase_Blue2Red: "toLowerCase ''Blue2Red'' = ''blue2red''"
  by code_simp

lemma toLowerCase_blue2red: "toLowerCase ''blue2red'' = ''blue2red''"
  by code_simp

lemma toLowerCase_gray: "toLowerCase ''gray'' = ''gray''"
  by code_simp

lemma dom_cmaps0: "dom cmaps0 = {''gray'', ''blue2red''}"
  by (auto simp add: cmaps0_def)

theorem setColorMap_registry_witness:
  "setColorMap cmaps0 ''Jet'' im0 = Some im0
   \<and> setColorMap cmaps0 ''Blue2Red'' im0 =
       Some (im0\<lparr>colorMap := ''blue2red'', cal_min := Fin 2, cal_max := Fin 5,
                 robust_min := Fin 2, robust_max := Fin 5\<rparr>)
   \<and> \<not> (\<exists>k\<in>dom cmaps0. toLowerCase k = toLowerCase ''Jet'')"
proof -
  have j: "toLowerCase ''Jet'' \<notin> dom cmaps0"
    by (simp add: toLowerCase_Jet dom_cmaps0)
  have b: "toLowerCase ''Blue2Red'' \<in> dom cmaps0"
    by (simp add: toLowerCase_Blue2Red dom_cmaps0)
  have l: "\<forall>k\<in>dom cmaps0. toLowerCase k = k"
    by (simp add: dom_cmaps0 toLowerCase_blue2red toLowerCase_gray)
  have c: "calMinMax cmaps0 (im0\<lparr>colorMap := toLowerCase ''Blue2Red''\<rparr>) =
       Some (im0\<lparr>colorMap := ''blue2red'', cal_min := Fin 2, cal_max := Fin 5,
                 robust_min := Fin 2, robust_max := Fin 5\<rparr>)"
    by (simp add: calMinMax_def Let_def toLowerCase_Blue2Red toLowerCase_blue2red cmaps0_def)
  from setColorMap_registry [of "''Jet''" cmaps0 im0] j l
  have 1: "setColorMap cmaps0 ''Jet'' im0 = Some im0"
    and 3: "\<not> (\<exists>k\<in>dom cmaps0. toLowerCase k = toLowerCase ''Jet'')"
    by blast+
  from setColorMap_registry [of "''Blue2Red''" cmaps0 im0] b c
  have 2: "setColorMap cmaps0 ''Blue2Red'' im0 =
       Some (im0\<lparr>colorMap := ''blue2red'', cal_min := Fin 2, cal_max := Fin 5,
                 robust_min := Fin 2, robust_max := Fin 5\<rparr>)"
    by simp
  from 1 2 3 show ?thesis
    by blast
qed


section \<open>Properties of the NRRD \<open>encoding\<close> key\<close>


lemma str_includes_examples:
  "str_includes ''gzip'' ''gz''" "str_includes ''raw'' ''raw''" "str_includes ''x raw y'' ''raw''"
  by simp_all




text \<open>The case of \<open>encoding\<close> never throws; the case of \<open>type\<close> next to it does.\<close>

lemma case_encoding_never_throws: "\<exists>st'. case_encoding val st = Inr st'"
  by (simp add: case_encoding_def)

lemma case_type_throws: "case_type ''complex'' h = Inl (UnsupportedNRRDType ''complex'')"
  by (simp add: case_type_def)


section \<open>Properties of the histogram stage\<close>















lemma map_js_get: "map (js_get vs) [0..<length vs + 1] = vs @ [NaN]"
proof -
  have "map (js_get vs) [0..<length vs] = map ((!) vs) [0..<length vs]"
    by (rule map_cong) (simp_all add: js_get_def)
  then show ?thesis
    by (simp add: map_nth js_get_def)
qed







text \<open>
  The stage at concrete inputs. A walk passes a run of empty bins without a change of
  its count.
\<close>

lemma walk_lo_zeros:
  assumes "js_lt (Fin (real n)) T" "\<forall>j. lo \<le> j \<and> j < k \<longrightarrow> hist ! j = 0"
    and "lo \<le> k" "k \<le> length hist"
  shows "walk_lo hist T n lo = walk_lo hist T n k"
  using assms
proof (induction "k - lo" arbitrary: lo)
  case 0
  then show ?case by simp
next
  case (Suc d)
  then have lt: "lo < k" "lo < length hist" and z: "hist ! lo = 0"
    by auto
  have "walk_lo hist T n lo = walk_lo hist T n (lo + 1)"
    using Suc.prems(1) lt z by (subst walk_lo.simps) simp
  also have "\<dots> = walk_lo hist T n k"
    using Suc.hyps(2) Suc.prems lt by (intro Suc.hyps(1)) auto
  finally show ?case .
qed

lemma walk_hi_zeros:
  assumes "js_lt (Fin (real n)) T" "\<forall>j. k \<le> j \<and> j < hi \<longrightarrow> hist ! j = 0"
    and "k \<le> hi" "hi \<le> length hist"
  shows "walk_hi hist T n hi = walk_hi hist T n k"
  using assms
proof (induction "hi - k" arbitrary: hi)
  case 0
  then show ?case by simp
next
  case (Suc d)
  then have lt: "k < hi" "hi - 1 < length hist" "hi \<noteq> 0" and z: "hist ! (hi - 1) = 0"
    by auto
  have "walk_hi hist T n hi = walk_hi hist T n (hi - 1)"
    using Suc.prems(1) lt z by (subst walk_hi.simps) simp
  also have "\<dots> = walk_hi hist T n k"
    using Suc.hyps(2) Suc.prems lt by (intro Suc.hyps(1)) auto
  finally show ?case .
qed









text \<open>
  Two more inputs on which the stage ends with \<open>lo = 1001 > hi = -1\<close>, with the
  fraction 0.5: a buffer whose first voxel is NaN (the raw minimum and maximum start from
  \<open>img[0]\<close> and stay NaN, so no voxel falls into a bin), and a buffer with infinite voxels
  (the scale is 0 and the infinite voxels fall into no bin).
\<close>

lemma walks_empty:
  "walk_lo (replicate 1001 0) (Fin 1) 0 0 = 1002"
  "walk_hi (replicate 1001 0) (Fin 1) 0 1001 = - 1"
proof -
  define H :: "nat list" where "H = replicate 1001 0"
  have H: "length H = 1001"
    by (simp add: H_def)
  have z: "\<forall>j. 0 \<le> j \<and> j < 1001 \<longrightarrow> H ! j = 0"
    by (simp add: H_def)
  have lt: "js_lt (Fin (real (0::nat))) (Fin 1)"
    by simp
  have "walk_lo H (Fin 1) 0 0 = walk_lo H (Fin 1) 0 1001"
    using lt z H by (intro walk_lo_zeros) simp_all
  also have "\<dots> = 1002"
    using lt H by (subst walk_lo.simps) simp
  finally show "walk_lo (replicate 1001 0) (Fin 1) 0 0 = 1002"
    unfolding H_def .
  have "walk_hi H (Fin 1) 0 1001 = walk_hi H (Fin 1) 0 0"
    using lt z H by (intro walk_hi_zeros) simp_all
  also have "\<dots> = - 1"
    using lt by (subst walk_hi.simps) simp
  finally show "walk_hi (replicate 1001 0) (Fin 1) 0 1001 = - 1"
    unfolding H_def .
qed

lemma robust_cuts_first_NaN:
  "first_pass (im0\<lparr>img := [NaN, Fin 0, Fin 1], percentileFrac := Fin (1 / 2)\<rparr>) = (NaN, NaN, Fin 1)
   \<and> \<not> js_lt (Fin 1) (Fin 1) \<and> \<not> js_eq NaN NaN
   \<and> robust_cuts False (Fin 1) NaN NaN [NaN, Fin 0, Fin 1] = Some (1001, - 1)"
proof -
  have fp: "first_pass (im0\<lparr>img := [NaN, Fin 0, Fin 1], percentileFrac := Fin (1 / 2)\<rparr>) =
              (NaN, NaN, Fin 1)"
    by (simp add: first_pass_def im0_def scan_def scan_step_def js_get_def js_min_def js_max_def)
  have hist: "build_hist False 1001 NaN NaN [NaN, Fin 0, Fin 1] = replicate 1001 0"
    unfolding build_hist_def map_js_get
    by (simp add: hist_step_def hist_inc_def)
  have "js_div (Fin (real (1001::nat) - 1)) (js_sub NaN NaN) = NaN"
    by simp
  then have "robust_cuts False (Fin 1) NaN NaN [NaN, Fin 0, Fin 1] = Some (1001, - 1)"
    unfolding robust_cuts_def Let_def by (simp only: hist walks_empty) simp
  with fp show ?thesis
    by simp
qed

lemma walks_0:
  "walk_lo ((replicate 1001 0)[0 := Suc 0]) (Fin 2) 0 0 = 1002"
  "walk_hi ((replicate 1001 0)[0 := Suc 0]) (Fin 2) 0 1001 = - 1"
proof -
  define H :: "nat list" where "H = (replicate 1001 0)[0 := Suc 0]"
  have H: "length H = 1001" "H ! 0 = 1"
    by (simp_all add: H_def)
  have z: "\<forall>j. 1 \<le> j \<and> j < 1001 \<longrightarrow> H ! j = 0"
    by (simp add: H_def)
  have lt: "js_lt (Fin (real (0::nat))) (Fin 2)" "js_lt (Fin (real (1::nat))) (Fin 2)"
    by simp_all
  have "walk_lo H (Fin 2) 0 0 = walk_lo H (Fin 2) 1 1"
    using lt(1) H by (subst walk_lo.simps) simp
  also have "\<dots> = walk_lo H (Fin 2) 1 1001"
    using lt(2) z H by (intro walk_lo_zeros) simp_all
  also have "\<dots> = 1002"
    using lt(2) H by (subst walk_lo.simps) simp
  finally show "walk_lo ((replicate 1001 0)[0 := Suc 0]) (Fin 2) 0 0 = 1002"
    unfolding H_def .
  have "walk_hi H (Fin 2) 0 1001 = walk_hi H (Fin 2) 0 1"
    using lt(1) z H by (intro walk_hi_zeros) simp_all
  also have "\<dots> = walk_hi H (Fin 2) 1 0"
    using lt(1) H by (subst walk_hi.simps) simp
  also have "\<dots> = - 1"
    using lt(2) by (subst walk_hi.simps) simp
  finally show "walk_hi ((replicate 1001 0)[0 := Suc 0]) (Fin 2) 0 1001 = - 1"
    unfolding H_def .
qed

lemma robust_cuts_infinity:
  "first_pass (im0\<lparr>img := [Fin 0, PInf, PInf, PInf], percentileFrac := Fin (1 / 2)\<rparr>) =
     (Fin 0, PInf, Fin 2)
   \<and> \<not> js_lt (Fin 2) (Fin 1) \<and> \<not> js_eq (Fin 0) PInf
   \<and> robust_cuts False (Fin 2) (Fin 0) PInf [Fin 0, PInf, PInf, PInf] = Some (1001, - 1)"
proof -
  have fp: "first_pass (im0\<lparr>img := [Fin 0, PInf, PInf, PInf], percentileFrac := Fin (1 / 2)\<rparr>) =
              (Fin 0, PInf, Fin 2)"
    by (simp add: first_pass_def im0_def scan_def scan_step_def js_get_def js_min_def js_max_def)
  have r: "js_round (js_mul (js_sub (Fin 0) (Fin 0)) (Fin 0)) = Fin 0"
    "js_round (js_mul (js_sub PInf (Fin 0)) (Fin 0)) = NaN"
    by (simp_all add: js_sub_def inf_of_sign_def)
  have a: "hist_inc (replicate 1001 0) (Fin 0) = (replicate 1001 0)[0 := Suc 0]"
    by (simp add: hist_inc_def)
  have n: "hist_inc h NaN = h" for h
    by (simp add: hist_inc_def)
  have hist: "build_hist False 1001 (Fin 0) (Fin 0) [Fin 0, PInf, PInf, PInf] =
                (replicate 1001 0)[0 := Suc 0]"
    unfolding build_hist_def map_js_get
    by (simp add: hist_step_def r a n)
  have "js_div (Fin (real (1001::nat) - 1)) (js_sub PInf (Fin 0)) = Fin 0"
    by (simp add: js_sub_def)
  then have "robust_cuts False (Fin 2) (Fin 0) PInf [Fin 0, PInf, PInf, PInf] = Some (1001, - 1)"
    unfolding robust_cuts_def Let_def by (simp only: hist walks_0) simp
  with fp show ?thesis
    by simp
qed




end
